theory Spec2Isabelle
  imports Complex_Main "HOL-Library.Word"
begin

section \<open>PixelGL: a shallow embedding of \<^verbatim>\<open>src/js/PixelGL.js\<close>\<close>

text \<open>
  The class \<^verbatim>\<open>PixelGL\<close> keeps a \<^verbatim>\<open>Uint8Array\<close> of RGBA bytes, brings a WebGL program
  online from two fetched shader sources, and uploads the bytes as a texture on every
  \<^verbatim>\<open>render\<close>. The model below follows the class method by method.

  Conventions of the embedding.
  \<^item> JavaScript numbers that the class uses as sizes, coordinates, indices and channel
    values are integers (\<open>int\<close>). The entries of the 4x4 matrices are numbers as a
    \<^verbatim>\<open>Float32Array\<close> holds them: every arithmetic operation rounds to a double, every
    store rounds to single precision, and a division by zero or an overflow gives a
    value that is not finite.
  \<^item> A method is a function from the instance before the call to the completion of
    the call and the instance after it. A completion is \<open>Inl\<close> of the exception thrown
    (for an \<^verbatim>\<open>async\<close> method: the rejection of its promise) or \<open>Inr\<close> of the value
    returned.
  \<^item> A field that the constructor never assigned, or assigned \<^verbatim>\<open>null\<close>, is \<open>None\<close>;
    reading a property of it throws \<^verbatim>\<open>TypeError\<close>.
  \<^item> The browser is a record of oracles: what \<^verbatim>\<open>document.querySelector\<close>,
    \<^verbatim>\<open>getContext\<close>, the allocator, \<^verbatim>\<open>fetch\<close>, the shader compiler and the linker
    answer, exceptions included. The WebGL context is not lost while a method runs
    (\<^verbatim>\<open>createTexture\<close>, \<^verbatim>\<open>createShader\<close>, \<^verbatim>\<open>createProgram\<close> and \<^verbatim>\<open>createBuffer\<close> return
    objects), and the arrays of fixed size that the methods create find room.
  \<^item> \<^verbatim>\<open>console.error\<close> appends to the field \<open>console\<close>; a diagnostic keeps the fixed
    text of its template as its constructor and the interpolated values as arguments.
\<close>

subsection \<open>Values, exceptions, diagnostics\<close>

type_synonym u8 = "8 word"

datatype exn = TypeError | RangeError | SyntaxError | NetworkError

datatype diagnostic =
    ErrorFindingCanvas string
      \<comment> \<open>\<^verbatim>\<open>Error finding canvas. Provided ID: ${canvasID}\<close>\<close>
  | ErrorGettingContext string
      \<comment> \<open>\<^verbatim>\<open>Error getting WebGL context for canvas. Provided ID: ${canvasID}\<close>\<close>
  | ErrorCreatingProgram
      \<comment> \<open>\<^verbatim>\<open>Error creating shader program.\<close>\<close>
  | CouldNotLoadShaders
      \<comment> \<open>\<^verbatim>\<open>Could not load shaders.\<close>\<close>
  | ErrorLinkingProgram string
      \<comment> \<open>\<^verbatim>\<open>Error linking shader program. Info: ${getProgramInfoLog(program)}\<close>\<close>
  | ErrorRetrievingSource string string int
      \<comment> \<open>\<^verbatim>\<open>Error retrieving source for shader. URI: ${..} Status: ${statusText} (${status})\<close>\<close>
  | CouldNotCompileShaders
      \<comment> \<open>\<^verbatim>\<open>Could not compile shaders.\<close>\<close>
  | ErrorCompilingShader string string
      \<comment> \<open>\<^verbatim>\<open>Error compiling shader. Shader: ${shaderName} Info: ${getShaderInfoLog(shader)}\<close>\<close>
  | UnableToLoadPixelData
      \<comment> \<open>\<^verbatim>\<open>Unable to load pixel data with different dimensions.\<close>\<close>

text \<open>What a method hands back when it returns: \<^verbatim>\<open>return null\<close>, or falling off its end.\<close>

datatype retval = Null | Undefined

subsection \<open>The browser\<close>

record response =
  status :: int
  statusText :: string
  text_body :: "string option"  \<comment> \<open>what \<^verbatim>\<open>await response.text()\<close> yields; \<open>None\<close>: it rejects\<close>

datatype fetch_result = Rejected | Resolved response

text \<open>A shader object is known by its type and source, a program by the shaders attached.\<close>

datatype shader = Shader int string

datatype program = Program "shader list"

record env =
  querySelector :: "string \<Rightarrow> exn + bool"
    \<comment> \<open>\<^verbatim>\<open>document.querySelector(selector)\<close>: \<open>Inl SyntaxError\<close> when the string is not a
        selector, \<open>Inr False\<close> for \<^verbatim>\<open>null\<close>, \<open>Inr True\<close> for an element\<close>
  getContext :: "string \<Rightarrow> exn + bool"
    \<comment> \<open>\<^verbatim>\<open>getContext("webgl")\<close> on the element with that id: \<open>Inl TypeError\<close> when the
        element has no such method, \<open>Inr False\<close> for \<^verbatim>\<open>null\<close>, \<open>Inr True\<close> for a context\<close>
  can_allocate :: "int \<Rightarrow> bool"
    \<comment> \<open>whether \<^verbatim>\<open>new Uint8Array(n)\<close> finds room for \<open>n\<close> bytes, \<open>n\<close> not negative\<close>
  fetch :: "string \<Rightarrow> fetch_result"
  compile_status :: "int \<Rightarrow> string \<Rightarrow> bool"
    \<comment> \<open>\<^verbatim>\<open>COMPILE_STATUS\<close> of a shader of the given type and source\<close>
  shader_info_log :: "int \<Rightarrow> string \<Rightarrow> string"
  link_status :: "shader list \<Rightarrow> bool"
    \<comment> \<open>\<^verbatim>\<open>LINK_STATUS\<close> of a program with these shaders attached\<close>
  program_info_log :: "shader list \<Rightarrow> string"

text \<open>The two shader-type constants of the WebGL API (\<^verbatim>\<open>0x8B31\<close> and \<^verbatim>\<open>0x8B30\<close>).\<close>

definition VERTEX_SHADER :: int where
  "VERTEX_SHADER = 35633"

definition FRAGMENT_SHADER :: int where
  "FRAGMENT_SHADER = 35632"

text \<open>A number used as a condition is true unless it is zero.\<close>

definition truthy :: "int \<Rightarrow> bool" where
  "truthy n = (n \<noteq> 0)"

subsection \<open>Numbers\<close>

text \<open>
  A number is a finite double or one of \<^verbatim>\<open>Infinity\<close>, \<^verbatim>\<open>-Infinity\<close> and \<^verbatim>\<open>NaN\<close>. The class
  only adds, multiplies and stores the entries of its matrices, and each of these
  turns a value that is not finite into one that is not finite, so the three are one
  value here; so are the two zeros, which the class never divides by.

  Rounding to a binary format of precision \<open>p\<close> with exponents from \<open>emin\<close> to \<open>emax\<close>:
  to the nearest multiple of the unit in the last place of the binade of \<open>x\<close>, ties to
  the even multiple, and to a value that is not finite beyond the largest finite one.
\<close>

datatype number = Finite real | NonFinite

definition pow2 :: "int \<Rightarrow> real" where
  "pow2 k = (if 0 \<le> k then 2 ^ nat k else 1 / 2 ^ nat (- k))"

definition round_half_even :: "real \<Rightarrow> int" where
  "round_half_even x =
     (let n = \<lfloor>x\<rfloor>;
          r = x - real_of_int n
      in if r < 1 / 2 then n
         else if 1 / 2 < r then n + 1
         else if even n then n else n + 1)"

definition binade :: "real \<Rightarrow> int" where
  "binade x = \<lfloor>log 2 \<bar>x\<bar>\<rfloor>"

definition ieee_round :: "nat \<Rightarrow> int \<Rightarrow> int \<Rightarrow> real \<Rightarrow> number" where
  "ieee_round p emin emax x =
     (if x = 0 then Finite 0
      else
        let e = max emin (binade x);
            ulp = pow2 (e - int p + 1);
            y = real_of_int (round_half_even (x / ulp)) * ulp
        in if pow2 (emax + 1) \<le> \<bar>y\<bar> then NonFinite else Finite y)"

definition to_double :: "real \<Rightarrow> number" where
  "to_double x = ieee_round 53 (- 1022) 1023 x"

definition to_float32 :: "real \<Rightarrow> number" where
  "to_float32 x = ieee_round 24 (- 126) 127 x"

fun js_add :: "number \<Rightarrow> number \<Rightarrow> number" where
  "js_add (Finite a) (Finite b) = to_double (a + b)"
| "js_add a b = NonFinite"

fun js_mul :: "number \<Rightarrow> number \<Rightarrow> number" where
  "js_mul (Finite a) (Finite b) = to_double (a * b)"
| "js_mul a b = NonFinite"

text \<open>
  The quotient of two integers that doubles hold exactly (below \<open>2^53\<close> in magnitude);
  \<open>2 / 0\<close> is \<^verbatim>\<open>Infinity\<close> and \<open>0 / 0\<close> is \<^verbatim>\<open>NaN\<close>.
\<close>

definition js_quotient :: "int \<Rightarrow> int \<Rightarrow> number" where
  "js_quotient a b =
     (if b = 0 then NonFinite else to_double (real_of_int a / real_of_int b))"

text \<open>
  A store into a \<^verbatim>\<open>Float32Array\<close> rounds to single precision. A read inside the array
  yields the element; a read outside yields \<^verbatim>\<open>undefined\<close>, which arithmetic and stores
  turn into \<^verbatim>\<open>NaN\<close>.
\<close>

fun Float32Array_store :: "number \<Rightarrow> number" where
  "Float32Array_store (Finite x) = to_float32 x"
| "Float32Array_store NonFinite = NonFinite"

definition Float32Array_get :: "number list \<Rightarrow> nat \<Rightarrow> number" where
  "Float32Array_get src k = (if k < length src then src ! k else NonFinite)"

subsection \<open>Typed-array element access\<close>

text \<open>
  A store into a \<^verbatim>\<open>Uint8Array\<close> reduces the number modulo 256; a store at an index
  outside the array does nothing, and a read there yields \<^verbatim>\<open>undefined\<close> (\<open>None\<close>).
\<close>

definition Uint8Array_set :: "u8 list \<Rightarrow> int \<Rightarrow> int \<Rightarrow> u8 list" where
  "Uint8Array_set d i v =
     (if 0 \<le> i \<and> i < int (length d) then d[nat i := word_of_int v] else d)"

definition Uint8Array_get :: "u8 list \<Rightarrow> int \<Rightarrow> int option" where
  "Uint8Array_get d i =
     (if 0 \<le> i \<and> i < int (length d) then Some (uint (d ! nat i)) else None)"

subsection \<open>The instance\<close>

record glctx =
  canvas_width :: int
  canvas_height :: int
  viewport :: "int \<times> int \<times> int \<times> int"
  texture_image :: "u8 list option"  \<comment> \<open>the pixels last handed to \<^verbatim>\<open>texImage2D\<close>\<close>
  current_program :: "program option"
  uniform_matrix :: "number list option"  \<comment> \<open>the value of \<^verbatim>\<open>u_matrix\<close>\<close>
  draw_calls :: nat

record pixelgl =
  safe :: bool
  initialized :: bool
  gl :: "glctx option"
  width :: int
  height :: int
  pixelCount :: int
  byteCount :: int
  data :: "u8 list option"
  program :: "program option"
  lastRenderDuration :: real
  lastRenderEnded :: real
  console :: "diagnostic list"

record pixel =
  pixel_x :: int
  pixel_y :: int
  red :: "int option"
  green :: "int option"
  blue :: "int option"
  alpha :: "int option"

definition error :: "diagnostic \<Rightarrow> pixelgl \<Rightarrow> pixelgl" where
  "error msg s = s\<lparr>console := console s @ [msg]\<rparr>"

text \<open>
  The instance as the first two statements of the constructor leave it. The numeric
  fields hold 0 until assigned; no method reads them before it has dereferenced
  \<open>gl\<close> or \<open>data\<close>.
\<close>

definition unset :: pixelgl where
  "unset = \<lparr>safe = False, initialized = False, gl = None, width = 0, height = 0,
            pixelCount = 0, byteCount = 0, data = None, program = None,
            lastRenderDuration = 0, lastRenderEnded = 0, console = []\<rparr>"

subsection \<open>constructor\<close>

text \<open>
  The \<^verbatim>\<open>width\<close> and \<^verbatim>\<open>height\<close> attributes of a canvas are unsigned longs that reflect
  content attributes: an assigned number is taken modulo \<open>2^32\<close>, and a result above
  \<open>2^31 - 1\<close> is replaced by the default (300 for the width, 150 for the height).
\<close>

definition canvas_dimension :: "int \<Rightarrow> int \<Rightarrow> int" where
  "canvas_dimension fallback v =
     (let u = v mod 4294967296 in if u \<le> 2147483647 then u else fallback)"

text \<open>
  \<^verbatim>\<open>document.querySelector\<close> and \<^verbatim>\<open>getContext\<close> may throw, and nothing catches it.
  \<^verbatim>\<open>new Uint8Array(n)\<close> throws \<^verbatim>\<open>RangeError\<close> for a negative length and for a length it
  finds no room for, and is zero-filled otherwise. \<^verbatim>\<open>createEmptyTexture\<close> hands the fresh
  buffer to \<^verbatim>\<open>texImage2D\<close>.
\<close>

definition construct :: "env \<Rightarrow> string \<Rightarrow> int \<Rightarrow> int \<Rightarrow> exn + pixelgl" where
  "construct e canvasID w h =
     (case querySelector e (CHR ''#'' # canvasID) of
        Inl ex \<Rightarrow> Inl ex
      | Inr found \<Rightarrow>
          if \<not> found then Inr (error (ErrorFindingCanvas canvasID) unset)
          else
            (case getContext e canvasID of
               Inl ex \<Rightarrow> Inl ex
             | Inr context \<Rightarrow>
                 if \<not> context then Inr (error (ErrorGettingContext canvasID) unset)
                 else
                   let pc = w * h;
                       bc = pc * 4
                   in if bc < 0 \<or> \<not> can_allocate e bc then Inl RangeError
                      else
                        let d = replicate (nat bc) (0 :: u8);
                            g = \<lparr>canvas_width = canvas_dimension 300 w,
                                 canvas_height = canvas_dimension 150 h,
                                 viewport = (0, 0, w, h),
                                 texture_image = Some d, current_program = None,
                                 uniform_matrix = None, draw_calls = 0\<rparr>
                        in Inr (unset\<lparr>gl := Some g, width := w, height := h,
                                     pixelCount := pc, byteCount := bc, data := Some d,
                                     safe := True\<rparr>)))"

subsection \<open>Pixel accessors\<close>

definition setPixel ::
  "int \<Rightarrow> int \<Rightarrow> int \<Rightarrow> int \<Rightarrow> int \<Rightarrow> int \<Rightarrow> pixelgl \<Rightarrow> (exn + retval) \<times> pixelgl" where
  "setPixel x y r g b a s =
     (let index = ((y * width s) + x) * 4
      in case data s of
           None \<Rightarrow> (Inl TypeError, s)
         | Some d0 \<Rightarrow>
             let d1 = Uint8Array_set d0 (index + 0) r;
                 d2 = Uint8Array_set d1 (index + 1) g;
                 d3 = Uint8Array_set d2 (index + 2) b;
                 d4 = Uint8Array_set d3 (index + 3) a
             in (Inr Undefined, s\<lparr>data := Some d4\<rparr>))"

definition getPixel :: "int \<Rightarrow> int \<Rightarrow> pixelgl \<Rightarrow> exn + pixel" where
  "getPixel x y s =
     (let index = ((y * width s) + x) * 4
      in case data s of
           None \<Rightarrow> Inl TypeError
         | Some d \<Rightarrow>
             Inr \<lparr>pixel_x = x, pixel_y = y,
                  red = Uint8Array_get d (index + 0),
                  green = Uint8Array_get d (index + 1),
                  blue = Uint8Array_get d (index + 2),
                  alpha = Uint8Array_get d (index + 3)\<rparr>)"

text \<open>The copying loop of \<^verbatim>\<open>loadPixelData\<close>; an element missing from the source stores 0.\<close>

function load_loop :: "nat \<Rightarrow> int list \<Rightarrow> u8 list \<Rightarrow> u8 list" where
  "load_loop i source d =
     (if i < length d then
        load_loop (Suc i) source
          (d[i := (if i < length source then word_of_int (source ! i) else 0)])
      else d)"
  by pat_completeness auto
termination
  by (relation "measure (\<lambda>(i, source, d). length d - i)") auto

declare load_loop.simps [simp del]

text \<open>
  The argument of \<^verbatim>\<open>loadPixelData\<close>: \<^verbatim>\<open>null\<close> or \<^verbatim>\<open>undefined\<close>, of which \<^verbatim>\<open>source.length\<close>
  throws, or an array of numbers.
\<close>

datatype pixel_source = Nullish | ArrayLike "int list"

definition loadPixelData :: "pixel_source \<Rightarrow> pixelgl \<Rightarrow> (exn + retval) \<times> pixelgl" where
  "loadPixelData src s =
     (case src of
        Nullish \<Rightarrow> (Inl TypeError, s)
      | ArrayLike source \<Rightarrow>
          (case data s of
             None \<Rightarrow> (Inl TypeError, s)
           | Some d \<Rightarrow>
               if length source \<noteq> length d then
                 (Inr Undefined, error UnableToLoadPixelData s)
               else (Inr Undefined, s\<lparr>data := Some (load_loop 0 source d)\<rparr>)))"

text \<open>The buffer has the length the dimensions ask for.\<close>

definition buffer_ok :: "pixelgl \<Rightarrow> bool" where
  "buffer_ok s =
     (case data s of None \<Rightarrow> False | Some d \<Rightarrow> int (length d) = width s * height s * 4)"

subsection \<open>Matrix builder\<close>

text \<open>
  A matrix is the list of its 16 entries, column by column, as the \<^verbatim>\<open>Float32Array(16)\<close>
  holds them. \<^verbatim>\<open>createOrthographicMatrix\<close> reads the size of \<^verbatim>\<open>this.gl.canvas\<close>; its six
  bounds are integers below \<open>2^31\<close> in magnitude, whose sums and differences are exact.
\<close>

definition createOrthographicMatrix :: "pixelgl \<Rightarrow> exn + number list" where
  "createOrthographicMatrix s =
     (case gl s of
        None \<Rightarrow> Inl TypeError
      | Some c \<Rightarrow>
          let left = 0;
              right = canvas_width c;
              bottom = canvas_height c;
              top = 0;
              near = - 1;
              far = 1
          in Inr (map Float32Array_store
                    [js_quotient 2 (right - left), Finite 0, Finite 0, Finite 0,
                     Finite 0, js_quotient 2 (top - bottom), Finite 0, Finite 0,
                     Finite 0, Finite 0, js_quotient 2 (near - far), Finite 0,
                     js_quotient (left + right) (left - right),
                     js_quotient (bottom + top) (bottom - top),
                     js_quotient (near + far) (near - far),
                     Finite 1]))"

definition translateMatrix :: "number list \<Rightarrow> number \<Rightarrow> number \<Rightarrow> number list" where
  "translateMatrix src tx ty =
     (let src00 = Float32Array_get src 0;
          src01 = Float32Array_get src 1;
          src02 = Float32Array_get src 2;
          src03 = Float32Array_get src 3;
          src10 = Float32Array_get src (1 * 4 + 0);
          src11 = Float32Array_get src (1 * 4 + 1);
          src12 = Float32Array_get src (1 * 4 + 2);
          src13 = Float32Array_get src (1 * 4 + 3);
          src20 = Float32Array_get src (2 * 4 + 0);
          src21 = Float32Array_get src (2 * 4 + 1);
          src22 = Float32Array_get src (2 * 4 + 2);
          src23 = Float32Array_get src (2 * 4 + 3);
          src30 = Float32Array_get src (3 * 4 + 0);
          src31 = Float32Array_get src (3 * 4 + 1);
          src32 = Float32Array_get src (3 * 4 + 2);
          src33 = Float32Array_get src (3 * 4 + 3)
      in map Float32Array_store
           [src00, src01, src02, src03,
            src10, src11, src12, src13,
            src20, src21, src22, src23,
            js_add (js_add (js_add (js_mul src00 tx) (js_mul src10 ty)) src20) src30,
            js_add (js_add (js_add (js_mul src01 tx) (js_mul src11 ty)) src21) src31,
            js_add (js_add (js_add (js_mul src02 tx) (js_mul src12 ty)) src22) src32,
            js_add (js_add (js_add (js_mul src03 tx) (js_mul src13 ty)) src23) src33])"

definition scaleMatrix :: "number list \<Rightarrow> number \<Rightarrow> number \<Rightarrow> number list" where
  "scaleMatrix src sx sy =
     map Float32Array_store
       [js_mul sx (Float32Array_get src (0 * 4 + 0)), js_mul sx (Float32Array_get src (0 * 4 + 1)),
        js_mul sx (Float32Array_get src (0 * 4 + 2)), js_mul sx (Float32Array_get src (0 * 4 + 3)),
        js_mul sy (Float32Array_get src (1 * 4 + 0)), js_mul sy (Float32Array_get src (1 * 4 + 1)),
        js_mul sy (Float32Array_get src (1 * 4 + 2)), js_mul sy (Float32Array_get src (1 * 4 + 3)),
        Float32Array_get src (2 * 4 + 0), Float32Array_get src (2 * 4 + 1),
        Float32Array_get src (2 * 4 + 2), Float32Array_get src (2 * 4 + 3),
        Float32Array_get src 12, Float32Array_get src 13,
        Float32Array_get src 14, Float32Array_get src 15]"

text \<open>
  What the specification asks of a translation: the product of the matrix with the
  translation matrix of \<open>(tx, ty)\<close>, both column-major, in exact arithmetic.
\<close>

definition identity_matrix :: "real list" where
  "identity_matrix = [1, 0, 0, 0,  0, 1, 0, 0,  0, 0, 1, 0,  0, 0, 0, 1]"

definition translation_matrix :: "real \<Rightarrow> real \<Rightarrow> real list" where
  "translation_matrix tx ty = [1, 0, 0, 0,  0, 1, 0, 0,  0, 0, 1, 0,  tx, ty, 0, 1]"

definition matrix_entry :: "real list \<Rightarrow> real list \<Rightarrow> nat \<Rightarrow> nat \<Rightarrow> real" where
  "matrix_entry a b col row =
     a ! (0 * 4 + row) * b ! (col * 4 + 0) + a ! (1 * 4 + row) * b ! (col * 4 + 1) +
     a ! (2 * 4 + row) * b ! (col * 4 + 2) + a ! (3 * 4 + row) * b ! (col * 4 + 3)"

definition matrix_product :: "real list \<Rightarrow> real list \<Rightarrow> real list" where
  "matrix_product a b =
     [matrix_entry a b 0 0, matrix_entry a b 0 1, matrix_entry a b 0 2, matrix_entry a b 0 3,
      matrix_entry a b 1 0, matrix_entry a b 1 1, matrix_entry a b 1 2, matrix_entry a b 1 3,
      matrix_entry a b 2 0, matrix_entry a b 2 1, matrix_entry a b 2 2, matrix_entry a b 2 3,
      matrix_entry a b 3 0, matrix_entry a b 3 1, matrix_entry a b 3 2, matrix_entry a b 3 3]"

subsection \<open>Shader program manager\<close>

text \<open>
  In \<^verbatim>\<open>compileShader\<close> the name of the stage comes from
  \<^verbatim>\<open>(shaderType = this.gl.VERTEX_SHADER)? .. : (shaderType = this.gl.FRAGMENT_SHADER)? .. : ..\<close>:
  each test is an assignment, whose value is the constant assigned.
\<close>

definition compileShader ::
  "env \<Rightarrow> string \<Rightarrow> int \<Rightarrow> pixelgl \<Rightarrow> (exn + shader option) \<times> pixelgl" where
  "compileShader e shaderSource shaderType s =
     (case gl s of
        None \<Rightarrow> (Inl TypeError, s)
      | Some c \<Rightarrow>
          let shader = Shader shaderType shaderSource;
              compiled = compile_status e shaderType shaderSource
          in if \<not> compiled then
               let shaderName =
                     (if truthy VERTEX_SHADER then ''vertex shader''
                      else if truthy FRAGMENT_SHADER then ''fragement shader''
                      else ''unknown'')
               in (Inr None,
                   error (ErrorCompilingShader shaderName
                            (shader_info_log e shaderType shaderSource)) s)
             else (Inr (Some shader), s))"

text \<open>The loop over the two responses; it stops at the first status other than 200.\<close>

fun check_responses :: "string \<Rightarrow> response list \<Rightarrow> diagnostic option" where
  "check_responses vertexShaderURI [] = None"
| "check_responses vertexShaderURI (r # rs) =
     (if status r \<noteq> 200 then
        Some (ErrorRetrievingSource vertexShaderURI (statusText r) (status r))
      else check_responses vertexShaderURI rs)"

text \<open>
  \<^verbatim>\<open>Promise.all\<close> rejects as soon as one of the two requests does; \<open>NetworkError\<close> stands
  for the reason that the rejected request, or the rejected reading of a body, carries.
\<close>

definition compileShaders ::
  "env \<Rightarrow> string \<Rightarrow> string \<Rightarrow> pixelgl \<Rightarrow> (exn + shader list option) \<times> pixelgl" where
  "compileShaders e vertexShaderURI fragementShaderURI s =
     (let vertexShaderRequest = fetch e vertexShaderURI;
          fragmentShaderRequest = fetch e fragementShaderURI
      in case (vertexShaderRequest, fragmentShaderRequest) of
           (Resolved r0, Resolved r1) \<Rightarrow>
             (case check_responses vertexShaderURI [r0, r1] of
                Some msg \<Rightarrow> (Inr None, error msg s)
              | None \<Rightarrow>
                  (case (text_body r0, text_body r1) of
                     (Some vertexShaderSource, Some fragmentShaderSource) \<Rightarrow>
                       (case compileShader e vertexShaderSource VERTEX_SHADER s of
                          (Inl ex, s1) \<Rightarrow> (Inl ex, s1)
                        | (Inr vertextShader, s1) \<Rightarrow>
                            (case compileShader e fragmentShaderSource FRAGMENT_SHADER s1 of
                               (Inl ex, s2) \<Rightarrow> (Inl ex, s2)
                             | (Inr fragmentShader, s2) \<Rightarrow>
                                 (case (vertextShader, fragmentShader) of
                                    (Some vs, Some fs) \<Rightarrow> (Inr (Some [vs, fs]), s2)
                                  | _ \<Rightarrow> (Inr None, error CouldNotCompileShaders s2))))
                   | _ \<Rightarrow> (Inl NetworkError, s)))
         | _ \<Rightarrow> (Inl NetworkError, s))"

definition createShaderProgram ::
  "env \<Rightarrow> string \<Rightarrow> string \<Rightarrow> pixelgl \<Rightarrow> (exn + program option) \<times> pixelgl" where
  "createShaderProgram e vertexShaderURI fragementShaderURI s =
     (case compileShaders e vertexShaderURI fragementShaderURI s of
        (Inl ex, s1) \<Rightarrow> (Inl ex, s1)
      | (Inr None, s1) \<Rightarrow> (Inr None, error CouldNotLoadShaders s1)
      | (Inr (Some shaders), s1) \<Rightarrow>
          (case gl s1 of
             None \<Rightarrow> (Inl TypeError, s1)
           | Some c \<Rightarrow>
               let linked = link_status e shaders
               in if \<not> linked then
                    (Inr None, error (ErrorLinkingProgram (program_info_log e shaders)) s1)
                  else (Inr (Some (Program shaders)), s1)))"

subsection \<open>initialize and render\<close>

text \<open>
  Of the WebGL calls that follow the creation of the program, the model keeps
  \<^verbatim>\<open>useProgram\<close> and the upload of the matrix; the attribute and buffer set-up changes no
  field that is modelled. The calls \<^verbatim>\<open>translateMatrix(matrix, 0, 0, 0)\<close> and
  \<^verbatim>\<open>scaleMatrix(matrix, this.width, this.height, 1)\<close> pass one argument more than the
  methods take; it is dropped.
\<close>

definition initialize ::
  "env \<Rightarrow> string \<Rightarrow> string \<Rightarrow> pixelgl \<Rightarrow> (exn + retval) \<times> pixelgl" where
  "initialize e vertexShaderURI fragementShaderURI s =
     (case createShaderProgram e vertexShaderURI fragementShaderURI s of
        (Inl ex, s1) \<Rightarrow> (Inl ex, s1)
      | (Inr p, s1) \<Rightarrow>
          let s2 = s1\<lparr>program := p\<rparr>
          in (case p of
                None \<Rightarrow> (Inr Null, error ErrorCreatingProgram s2)
              | Some prog \<Rightarrow>
                  (case gl s2 of
                     None \<Rightarrow> (Inl TypeError, s2)
                   | Some c \<Rightarrow>
                       let s3 = s2\<lparr>gl := Some (c\<lparr>current_program := Some prog\<rparr>)\<rparr>
                       in (case createOrthographicMatrix s3 of
                             Inl ex \<Rightarrow> (Inl ex, s3)
                           | Inr m0 \<Rightarrow>
                               let m1 = translateMatrix m0 (Finite 0) (Finite 0);
                                   m2 = scaleMatrix m1 (Finite (real_of_int (width s3)))
                                          (Finite (real_of_int (height s3)));
                                   c3 = c\<lparr>current_program := Some prog,
                                          uniform_matrix := Some m2\<rparr>
                               in (Inr Undefined,
                                   s3\<lparr>gl := Some c3, initialized := True\<rparr>)))))"

definition updateTexture :: "pixelgl \<Rightarrow> exn + pixelgl" where
  "updateTexture s =
     (case gl s of
        None \<Rightarrow> Inl TypeError
      | Some c \<Rightarrow> Inr (s\<lparr>gl := Some (c\<lparr>texture_image := data s\<rparr>)\<rparr>))"

text \<open>The two readings of \<^verbatim>\<open>performance.now()\<close> are arguments.\<close>

definition render :: "real \<Rightarrow> real \<Rightarrow> pixelgl \<Rightarrow> (exn + retval) \<times> pixelgl" where
  "render renderBegin renderFinish s =
     (case updateTexture s of
        Inl ex \<Rightarrow> (Inl ex, s)
      | Inr s1 \<Rightarrow>
          (case gl s1 of
             None \<Rightarrow> (Inl TypeError, s1)
           | Some c \<Rightarrow>
               (Inr Undefined,
                s1\<lparr>gl := Some (c\<lparr>draw_calls := draw_calls c + 1\<rparr>),
                   lastRenderDuration := renderFinish - renderBegin,
                   lastRenderEnded := renderFinish\<rparr>)))"

subsection \<open>The five steps of initialization\<close>

text \<open>
  Read off the oracles: a fetch succeeded when it resolved with status 200; a stage
  compiled when the source fetched for it has a true \<^verbatim>\<open>COMPILE_STATUS\<close>; the program
  linked when the two shaders made from the fetched sources have a true \<^verbatim>\<open>LINK_STATUS\<close>.
\<close>

definition fetch_succeeded :: "env \<Rightarrow> string \<Rightarrow> bool" where
  "fetch_succeeded e uri =
     (case fetch e uri of Rejected \<Rightarrow> False | Resolved r \<Rightarrow> status r = 200)"

definition fetched_source :: "env \<Rightarrow> string \<Rightarrow> string option" where
  "fetched_source e uri =
     (case fetch e uri of Rejected \<Rightarrow> None | Resolved r \<Rightarrow> text_body r)"

definition stage_compiled :: "env \<Rightarrow> int \<Rightarrow> string \<Rightarrow> bool" where
  "stage_compiled e shaderType uri =
     (case fetched_source e uri of
        None \<Rightarrow> False
      | Some src \<Rightarrow> compile_status e shaderType src)"

definition program_linked :: "env \<Rightarrow> string \<Rightarrow> string \<Rightarrow> bool" where
  "program_linked e vertexShaderURI fragementShaderURI =
     (case (fetched_source e vertexShaderURI, fetched_source e fragementShaderURI) of
        (Some vsrc, Some fsrc) \<Rightarrow>
          link_status e [Shader VERTEX_SHADER vsrc, Shader FRAGMENT_SHADER fsrc]
      | _ \<Rightarrow> False)"

definition all_steps_succeeded :: "env \<Rightarrow> string \<Rightarrow> string \<Rightarrow> bool" where
  "all_steps_succeeded e vertexShaderURI fragementShaderURI =
     (fetch_succeeded e vertexShaderURI \<and> fetch_succeeded e fragementShaderURI \<and>
      stage_compiled e VERTEX_SHADER vertexShaderURI \<and>
      stage_compiled e FRAGMENT_SHADER fragementShaderURI \<and>
      program_linked e vertexShaderURI fragementShaderURI)"

text \<open>Both requests resolved and both bodies could be read.\<close>

definition sources_arrived :: "env \<Rightarrow> string \<Rightarrow> string \<Rightarrow> bool" where
  "sources_arrived e vertexShaderURI fragementShaderURI =
     (case (fetch e vertexShaderURI, fetch e fragementShaderURI) of
        (Resolved r0, Resolved r1) \<Rightarrow> text_body r0 \<noteq> None \<and> text_body r1 \<noteq> None
      | _ \<Rightarrow> False)"

text \<open>
  Nothing rejects on the way: both requests resolved, and both bodies could be read
  unless a status other than 200 ended the call before it read them.
\<close>

definition nothing_rejects :: "env \<Rightarrow> string \<Rightarrow> string \<Rightarrow> bool" where
  "nothing_rejects e vertexShaderURI fragementShaderURI =
     (case (fetch e vertexShaderURI, fetch e fragementShaderURI) of
        (Resolved r0, Resolved r1) \<Rightarrow>
          status r0 \<noteq> 200 \<or> status r1 \<noteq> 200 \<or>
          (text_body r0 \<noteq> None \<and> text_body r1 \<noteq> None)
      | _ \<Rightarrow> False)"

text \<open>An instance on which the methods find their context and their buffer.\<close>

definition usable :: "pixelgl \<Rightarrow> bool" where
  "usable s = (gl s \<noteq> None \<and> data s \<noteq> None)"

subsection \<open>Concrete browsers and instances\<close>

text \<open>
  A browser in which everything works: the document has one element, a canvas with
  the id \<^verbatim>\<open>canvas\<close>, which gives a WebGL context; a buffer of up to \<open>2^31 - 1\<close> bytes can
  be allocated; every fetch answers 200 with a body, every shader compiles and every
  program links. The selector \<^verbatim>\<open>#\<close>, which an empty id gives, is a syntax error.
\<close>

definition demo_env :: env where
  "demo_env =
     \<lparr>querySelector = (\<lambda>selector.
        if selector = ''#'' then Inl SyntaxError else Inr (selector = ''#canvas'')),
      getContext = (\<lambda>canvasID. Inr True),
      can_allocate = (\<lambda>n. n \<le> 2147483647),
      fetch = (\<lambda>uri. Resolved \<lparr>status = 200, statusText = ''OK'', text_body = Some uri\<rparr>),
      compile_status = (\<lambda>shaderType src. True),
      shader_info_log = (\<lambda>shaderType src. []),
      link_status = (\<lambda>shaders. True),
      program_info_log = (\<lambda>shaders. [])\<rparr>"

text \<open>The same browser, but the fragment shader's source is answered with 404.\<close>

definition fragment_missing_env :: env where
  "fragment_missing_env =
     demo_env\<lparr>fetch := (\<lambda>uri.
        if uri = ''shaders/pixelGL.frag''
        then Resolved \<lparr>status = 404, statusText = ''Not Found'', text_body = Some []\<rparr>
        else Resolved \<lparr>status = 200, statusText = ''OK'', text_body = Some uri\<rparr>)\<rparr>"

text \<open>The same browser, but no fragment shader compiles.\<close>

definition fragment_broken_env :: env where
  "fragment_broken_env =
     demo_env\<lparr>compile_status := (\<lambda>shaderType src. shaderType \<noteq> FRAGMENT_SHADER),
              shader_info_log := (\<lambda>shaderType src. ''ERROR: 0:1: syntax error'')\<rparr>"

text \<open>The same browser without a network: every fetch rejects.\<close>

definition offline_env :: env where
  "offline_env = demo_env\<lparr>fetch := (\<lambda>uri. Rejected)\<rparr>"

text \<open>The same browser, but the canvas gives no WebGL context.\<close>

definition no_webgl_env :: env where
  "no_webgl_env = demo_env\<lparr>getContext := (\<lambda>canvasID. Inr False)\<rparr>"

text \<open>The same browser, but the element found is not a canvas and has no \<^verbatim>\<open>getContext\<close>.\<close>

definition not_a_canvas_env :: env where
  "not_a_canvas_env = demo_env\<lparr>getContext := (\<lambda>canvasID. Inl TypeError)\<rparr>"

definition instance_of :: "exn + pixelgl \<Rightarrow> pixelgl" where
  "instance_of c = (case c of Inl ex \<Rightarrow> unset | Inr s \<Rightarrow> s)"

definition instance_2x2 :: pixelgl where
  "instance_2x2 = instance_of (construct demo_env ''canvas'' 2 2)"

definition instance_960x640 :: pixelgl where
  "instance_960x640 = instance_of (construct demo_env ''canvas'' 960 640)"

section \<open>Properties\<close>

subsection \<open>Reading back what was written\<close>

lemma pixel_index_bounds:
  fixes x y w h :: int
  assumes "0 \<le> x" "x < w" "0 \<le> y" "y < h"
  shows "0 \<le> (y * w + x) * 4" and "(y * w + x) * 4 + 3 < w * h * 4"
proof -
  have w: "0 < w" using assms by linarith
  have yw: "0 \<le> y * w" using assms w by simp
  have "0 \<le> y * w + x" using yw assms by linarith
  then show "0 \<le> (y * w + x) * 4" by simp
  have "y + 1 \<le> h" using assms by linarith
  then have "(y + 1) * w \<le> h * w" using w by (intro mult_right_mono) auto
  then have "y * w + w \<le> w * h" by (simp add: algebra_simps)
  then have "y * w + x + 1 \<le> w * h" using assms by linarith
  moreover have "\<And>p q :: int. p + 1 \<le> q \<Longrightarrow> p * 4 + 3 < q * 4" by linarith
  ultimately show "(y * w + x) * 4 + 3 < w * h * 4" by blast
qed

lemma uint_store: "uint (word_of_int v :: u8) = v mod 256"
  by (simp add: uint_word_of_int_eq take_bit_eq_mod)

lemma Uint8Array_set_length [simp]: "length (Uint8Array_set d i v) = length d"
  by (simp add: Uint8Array_set_def)

lemma Uint8Array_get_set_same:
  "0 \<le> i \<Longrightarrow> i < int (length d) \<Longrightarrow>
   Uint8Array_get (Uint8Array_set d i v) i = Some (v mod 256)"
  by (simp add: Uint8Array_get_def Uint8Array_set_def uint_store)

lemma Uint8Array_get_set_other:
  "i \<noteq> j \<Longrightarrow> Uint8Array_get (Uint8Array_set d i v) j = Uint8Array_get d j"
  by (auto simp: Uint8Array_get_def Uint8Array_set_def nth_list_update)

lemma four_stores_read:
  fixes r g b a :: int
  assumes "0 \<le> i" "i + 3 < int (length d)"
  defines "d4 \<equiv> Uint8Array_set (Uint8Array_set (Uint8Array_set (Uint8Array_set d
                   (i + 0) r) (i + 1) g) (i + 2) b) (i + 3) a"
  shows "Uint8Array_get d4 (i + 0) = Some (r mod 256)"
    and "Uint8Array_get d4 (i + 1) = Some (g mod 256)"
    and "Uint8Array_get d4 (i + 2) = Some (b mod 256)"
    and "Uint8Array_get d4 (i + 3) = Some (a mod 256)"
  using assms(1,2) unfolding d4_def
  by (simp_all add: Uint8Array_get_set_same Uint8Array_get_set_other)

lemma setPixel_then_getPixel:
  assumes ok: "buffer_ok s"
    and x: "0 \<le> x" "x < width s" and y: "0 \<le> y" "y < height s"
  shows "setPixel x y r g b a s = (Inr Undefined, snd (setPixel x y r g b a s)) \<and>
         getPixel x y (snd (setPixel x y r g b a s)) =
           Inr \<lparr>pixel_x = x, pixel_y = y, red = Some (r mod 256), green = Some (g mod 256),
                blue = Some (b mod 256), alpha = Some (a mod 256)\<rparr>"
proof -
  obtain d where d: "data s = Some d" and len: "int (length d) = width s * height s * 4"
    using ok by (auto simp: buffer_ok_def split: option.splits)
  define i where "i = (y * width s + x) * 4"
  have lo: "0 \<le> i" and hi: "i + 3 < int (length d)"
    using pixel_index_bounds [OF x y] len by (simp_all only: i_def)
  define d4 where "d4 = Uint8Array_set (Uint8Array_set (Uint8Array_set
         (Uint8Array_set d (i + 0) r) (i + 1) g) (i + 2) b) (i + 3) a"
  note rd = four_stores_read [OF lo hi, of r g b a, folded d4_def]
  define s' where "s' = snd (setPixel x y r g b a s)"
  have set: "setPixel x y r g b a s = (Inr Undefined, s\<lparr>data := Some d4\<rparr>)"
    unfolding setPixel_def Let_def i_def d4_def d by simp
  have w': "width s' = width s" and d': "data s' = Some d4"
    by (simp_all add: s'_def set)
  have gp: "getPixel x y s' =
          Inr \<lparr>pixel_x = x, pixel_y = y, red = Some (r mod 256), green = Some (g mod 256),
               blue = Some (b mod 256), alpha = Some (a mod 256)\<rparr>"
    unfolding getPixel_def Let_def w' d' i_def [symmetric]
    by (simp only: option.case rd)
  have sp: "setPixel x y r g b a s = (Inr Undefined, s')"
    by (simp add: s'_def set)
  from sp gp show ?thesis unfolding s'_def by (rule conjI)
qed

lemma construct_2x2: "construct demo_env ''canvas'' 2 2 = Inr instance_2x2"
  by (simp add: instance_2x2_def instance_of_def construct_def demo_env_def Let_def)

lemma instance_2x2_fields:
  "width instance_2x2 = 2" "height instance_2x2 = 2" "safe instance_2x2"
  "\<not> initialized instance_2x2" "buffer_ok instance_2x2" "gl instance_2x2 \<noteq> None"
  "console instance_2x2 = []" "usable instance_2x2"
  by (simp_all add: instance_2x2_def instance_of_def construct_def demo_env_def Let_def
      unset_def buffer_ok_def usable_def)

text \<open>
  C1. On an instance whose buffer has the length its dimensions ask for (as every
  constructed instance has), for coordinates inside the surface and channel values in
  0..255, \<^verbatim>\<open>getPixel(x, y)\<close> right after \<^verbatim>\<open>setPixel(x, y, r, g, b, a)\<close> returns exactly the
  record of \<open>x\<close>, \<open>y\<close> and the four values written.
\<close>

theorem getPixel_after_setPixel_roundtrip:
  assumes "buffer_ok s"
    and "0 \<le> x" "x < width s" "0 \<le> y" "y < height s"
    and "0 \<le> r" "r \<le> 255" "0 \<le> g" "g \<le> 255" "0 \<le> b" "b \<le> 255" "0 \<le> a" "a \<le> 255"
  shows "getPixel x y (snd (setPixel x y r g b a s)) =
           Inr \<lparr>pixel_x = x, pixel_y = y, red = Some r, green = Some g,
                blue = Some b, alpha = Some a\<rparr>"
proof -
  have "r mod 256 = r" "g mod 256 = g" "b mod 256 = b" "a mod 256 = a"
    using assms(6-13) by simp_all
  with setPixel_then_getPixel [OF assms(1-5), of r g b a] show ?thesis by simp
qed

theorem getPixel_after_setPixel_roundtrip_witness:
  "buffer_ok instance_2x2 \<and> 1 < width instance_2x2 \<and> 1 < height instance_2x2 \<and>
   getPixel 1 1 (snd (setPixel 1 1 10 20 30 255 instance_2x2)) =
     Inr \<lparr>pixel_x = 1, pixel_y = 1, red = Some 10, green = Some 20,
          blue = Some 30, alpha = Some 255\<rparr>"
  using getPixel_after_setPixel_roundtrip [of instance_2x2 1 1 10 20 30 255]
  by (simp add: instance_2x2_fields)

text \<open>
  C10. For coordinates inside the surface and any integer channel arguments, \<^verbatim>\<open>setPixel\<close>
  stores each argument modulo 256, and a following \<^verbatim>\<open>getPixel\<close> returns the reduced values:
  300 is read back as 44, -1 as 255, 256 as 0.
\<close>

theorem setPixel_stores_channels_mod_256:
  assumes "buffer_ok s"
    and "0 \<le> x" "x < width s" "0 \<le> y" "y < height s"
  shows "getPixel x y (snd (setPixel x y r g b a s)) =
           Inr \<lparr>pixel_x = x, pixel_y = y, red = Some (r mod 256), green = Some (g mod 256),
                blue = Some (b mod 256), alpha = Some (a mod 256)\<rparr>"
  using setPixel_then_getPixel [OF assms, of r g b a] by simp

theorem setPixel_stores_channels_mod_256_witness:
  "buffer_ok instance_2x2 \<and> 0 < width instance_2x2 \<and> 0 < height instance_2x2 \<and>
   getPixel 0 0 (snd (setPixel 0 0 300 (- 1) 256 255 instance_2x2)) =
     Inr \<lparr>pixel_x = 0, pixel_y = 0, red = Some 44, green = Some 255,
          blue = Some 0, alpha = Some 255\<rparr>"
  using setPixel_stores_channels_mod_256 [of instance_2x2 0 0 300 "- 1" 256 255]
  by (simp add: instance_2x2_fields)

subsection \<open>Bulk load\<close>

lemma load_loop_length [simp]: "length (load_loop i source d) = length d"
proof (induction i source d rule: load_loop.induct)
  case (1 i source d)
  show ?case
  proof (cases "i < length d")
    case True
    with "1" show ?thesis by (subst load_loop.simps) simp
  next
    case False
    then show ?thesis by (subst load_loop.simps) simp
  qed
qed

lemma load_loop_copies:
  "i \<le> length d \<Longrightarrow> length source = length d \<Longrightarrow>
   load_loop i source d = take i d @ map word_of_int (drop i source)"
proof (induction i source d rule: load_loop.induct)
  case (1 i source d)
  show ?case
  proof (cases "i < length d")
    case True
    let ?w = "word_of_int (source ! i) :: u8"
    have "load_loop i source d = load_loop (Suc i) source (d[i := ?w])"
      using True "1.prems" by (subst load_loop.simps) simp
    also have "\<dots> = take (Suc i) (d[i := ?w]) @ map word_of_int (drop (Suc i) source)"
      using True "1.prems" "1.IH" by simp
    also have "take (Suc i) (d[i := ?w]) = take i d @ [?w]"
      using True by (simp add: take_Suc_conv_app_nth)
    also have "(take i d @ [?w]) @ map word_of_int (drop (Suc i) source) =
               take i d @ map word_of_int (drop i source)"
      using True "1.prems" by (simp add: Cons_nth_drop_Suc [symmetric])
    finally show ?thesis .
  next
    case False
    with "1.prems" have "i = length d" by simp
    with "1.prems" show ?thesis by (subst load_loop.simps) simp
  qed
qed

lemma load_loop_all:
  "length source = length d \<Longrightarrow> load_loop 0 source d = map word_of_int source"
  using load_loop_copies [of 0 d source] by simp

lemma bytes_read_back:
  "\<forall>v \<in> set source. 0 \<le> v \<and> v < 256 \<Longrightarrow>
   map (\<lambda>v. uint (word_of_int v :: u8)) source = source"
  by (induction source) (simp_all add: uint_store)

lemma error_fields [simp]:
  "data (error msg s) = data s" "width (error msg s) = width s"
  "height (error msg s) = height s" "gl (error msg s) = gl s"
  "initialized (error msg s) = initialized s" "safe (error msg s) = safe s"
  "console (error msg s) = console s @ [msg]"
  by (simp_all add: error_def)

text \<open>
  C2. On an instance whose buffer has \<open>width * height * 4\<close> bytes: a source of another
  length makes \<^verbatim>\<open>loadPixelData\<close> emit its diagnostic and leave the buffer as it was; a
  source of that length replaces the buffer by the source's elements reduced to bytes,
  which for a source of bytes is the source itself.
\<close>

theorem loadPixelData_checks_length:
  assumes "buffer_ok s"
  shows "(int (length source) \<noteq> width s * height s * 4 \<longrightarrow>
            fst (loadPixelData (ArrayLike source) s) = Inr Undefined \<and>
            console (snd (loadPixelData (ArrayLike source) s)) = console s @ [UnableToLoadPixelData] \<and>
            data (snd (loadPixelData (ArrayLike source) s)) = data s) \<and>
         (int (length source) = width s * height s * 4 \<longrightarrow>
            fst (loadPixelData (ArrayLike source) s) = Inr Undefined \<and>
            console (snd (loadPixelData (ArrayLike source) s)) = console s \<and>
            data (snd (loadPixelData (ArrayLike source) s)) = Some (map word_of_int source) \<and>
            ((\<forall>v \<in> set source. 0 \<le> v \<and> v < 256) \<longrightarrow>
               map_option (map uint) (data (snd (loadPixelData (ArrayLike source) s))) = Some source))"
proof -
  obtain d where d: "data s = Some d" and len: "int (length d) = width s * height s * 4"
    using assms by (auto simp: buffer_ok_def split: option.splits)
  show ?thesis
  proof (cases "length source = length d")
    case True
    then have "loadPixelData (ArrayLike source) s =
                 (Inr Undefined, s\<lparr>data := Some (map word_of_int source)\<rparr>)"
      by (simp add: loadPixelData_def d load_loop_all)
    with True len show ?thesis by (simp add: bytes_read_back o_def)
  next
    case False
    then have "loadPixelData (ArrayLike source) s = (Inr Undefined, error UnableToLoadPixelData s)"
      by (simp add: loadPixelData_def d)
    with False len show ?thesis by auto
  qed
qed

theorem loadPixelData_checks_length_witness:
  "buffer_ok instance_2x2 \<and>
   data (snd (loadPixelData (ArrayLike [1, 2, 3]) instance_2x2)) = data instance_2x2 \<and>
   console (snd (loadPixelData (ArrayLike [1, 2, 3]) instance_2x2)) = [UnableToLoadPixelData] \<and>
   map_option (map uint)
     (data (snd (loadPixelData (ArrayLike [1, 2, 3, 4, 5, 6, 7, 8, 9, 10, 11, 12, 13, 14, 15, 255])
        instance_2x2))) =
     Some [1, 2, 3, 4, 5, 6, 7, 8, 9, 10, 11, 12, 13, 14, 15, 255]"
  using loadPixelData_checks_length [of instance_2x2 "[1, 2, 3]"]
    loadPixelData_checks_length
      [of instance_2x2 "[1, 2, 3, 4, 5, 6, 7, 8, 9, 10, 11, 12, 13, 14, 15, 255]"]
  by (simp add: instance_2x2_fields)

subsection \<open>Fetching, compiling, linking\<close>

text \<open>
  The first test of the stage name assigns \<^verbatim>\<open>VERTEX_SHADER\<close>, which is not zero, so the
  name is always that of the vertex stage. \<^verbatim>\<open>deleteShader\<close> and \<^verbatim>\<open>deleteProgram\<close> release
  objects that the instance does not keep.
\<close>

lemma compileShader_eq:
  "compileShader e src ty s =
     (if gl s = None then (Inl TypeError, s)
      else if compile_status e ty src then (Inr (Some (Shader ty src)), s)
      else (Inr None,
            error (ErrorCompilingShader ''vertex shader'' (shader_info_log e ty src)) s))"
  by (simp add: compileShader_def Let_def truthy_def VERTEX_SHADER_def split: option.split)

lemma compileShaders_rejected:
  "fetch e v = Rejected \<or> fetch e f = Rejected \<Longrightarrow>
   compileShaders e v f s = (Inl NetworkError, s)"
  by (auto simp: compileShaders_def Let_def split: fetch_result.split)

lemma compileShaders_bad_status:
  assumes "fetch e v = Resolved r0" "fetch e f = Resolved r1"
    and "status r0 \<noteq> 200 \<or> status r1 \<noteq> 200"
  shows "compileShaders e v f s =
     (Inr None, error (if status r0 \<noteq> 200
                       then ErrorRetrievingSource v (statusText r0) (status r0)
                       else ErrorRetrievingSource v (statusText r1) (status r1)) s)"
  using assms by (auto simp: compileShaders_def Let_def)

lemma compileShaders_unreadable:
  assumes "fetch e v = Resolved r0" "fetch e f = Resolved r1"
    and "status r0 = 200" "status r1 = 200"
    and "text_body r0 = None \<or> text_body r1 = None"
  shows "compileShaders e v f s = (Inl NetworkError, s)"
  using assms by (auto simp: compileShaders_def Let_def split: option.split)

lemma compileShaders_no_context:
  assumes "fetch e v = Resolved r0" "fetch e f = Resolved r1"
    and "status r0 = 200" "status r1 = 200"
    and "text_body r0 = Some vsrc" "text_body r1 = Some fsrc"
    and "gl s = None"
  shows "compileShaders e v f s = (Inl TypeError, s)"
  using assms by (simp add: compileShaders_def Let_def compileShader_eq)

lemma compileShaders_compiling:
  assumes "fetch e v = Resolved r0" "fetch e f = Resolved r1"
    and "status r0 = 200" "status r1 = 200"
    and "text_body r0 = Some vsrc" "text_body r1 = Some fsrc"
    and "gl s \<noteq> None"
  shows "compileShaders e v f s =
     (if compile_status e VERTEX_SHADER vsrc then
        if compile_status e FRAGMENT_SHADER fsrc then
          (Inr (Some [Shader VERTEX_SHADER vsrc, Shader FRAGMENT_SHADER fsrc]), s)
        else
          (Inr None, error CouldNotCompileShaders
             (error (ErrorCompilingShader ''vertex shader''
                       (shader_info_log e FRAGMENT_SHADER fsrc)) s))
      else if compile_status e FRAGMENT_SHADER fsrc then
        (Inr None, error CouldNotCompileShaders
           (error (ErrorCompilingShader ''vertex shader''
                     (shader_info_log e VERTEX_SHADER vsrc)) s))
      else
        (Inr None, error CouldNotCompileShaders
           (error (ErrorCompilingShader ''vertex shader''
                     (shader_info_log e FRAGMENT_SHADER fsrc))
              (error (ErrorCompilingShader ''vertex shader''
                        (shader_info_log e VERTEX_SHADER vsrc)) s))))"
  using assms by (auto simp: compileShaders_def Let_def compileShader_eq)

lemma compileShaders_cases [case_names Rejected BadStatus Unreadable NoContext Compiling]:
  fixes e :: env
  obtains
    "fetch e v = Rejected \<or> fetch e f = Rejected"
  | r0 r1 where "fetch e v = Resolved r0" "fetch e f = Resolved r1"
      "status r0 \<noteq> 200 \<or> status r1 \<noteq> 200"
  | r0 r1 where "fetch e v = Resolved r0" "fetch e f = Resolved r1"
      "status r0 = 200" "status r1 = 200" "text_body r0 = None \<or> text_body r1 = None"
  | r0 r1 vsrc fsrc where "fetch e v = Resolved r0" "fetch e f = Resolved r1"
      "status r0 = 200" "status r1 = 200" "text_body r0 = Some vsrc" "text_body r1 = Some fsrc"
      "gl s = None"
  | r0 r1 vsrc fsrc where "fetch e v = Resolved r0" "fetch e f = Resolved r1"
      "status r0 = 200" "status r1 = 200" "text_body r0 = Some vsrc" "text_body r1 = Some fsrc"
      "gl s \<noteq> None"
  by (cases "fetch e v"; cases "fetch e f"; simp) (metis option.exhaust)

lemma compileShaders_frame:
  "data (snd (compileShaders e v f s)) = data s \<and>
   width (snd (compileShaders e v f s)) = width s \<and>
   height (snd (compileShaders e v f s)) = height s \<and>
   gl (snd (compileShaders e v f s)) = gl s \<and>
   initialized (snd (compileShaders e v f s)) = initialized s"
proof (cases rule: compileShaders_cases [where e = e and v = v and f = f and s = s])
  case Rejected
  then show ?thesis by (simp add: compileShaders_rejected)
next
  case (BadStatus r0 r1)
  then show ?thesis by (simp add: compileShaders_bad_status)
next
  case (Unreadable r0 r1)
  then show ?thesis by (simp add: compileShaders_unreadable)
next
  case (NoContext r0 r1 vsrc fsrc)
  then show ?thesis by (simp add: compileShaders_no_context)
next
  case (Compiling r0 r1 vsrc fsrc)
  then show ?thesis by (simp add: compileShaders_compiling)
qed

lemmas step_defs =
  fetch_succeeded_def fetched_source_def stage_compiled_def program_linked_def
  all_steps_succeeded_def sources_arrived_def

text \<open>\<^verbatim>\<open>compileShaders\<close> hands back the two shaders exactly when both fetches and both
  compilations succeeded (and there is a context to compile in).\<close>

lemma compileShaders_Some_iff:
  "fst (compileShaders e v f s) = Inr (Some shs) \<longleftrightarrow>
     gl s \<noteq> None \<and> fetch_succeeded e v \<and> fetch_succeeded e f \<and>
     stage_compiled e VERTEX_SHADER v \<and> stage_compiled e FRAGMENT_SHADER f \<and>
     (\<exists>vsrc fsrc. fetched_source e v = Some vsrc \<and> fetched_source e f = Some fsrc \<and>
        shs = [Shader VERTEX_SHADER vsrc, Shader FRAGMENT_SHADER fsrc])"
proof (cases rule: compileShaders_cases [where e = e and v = v and f = f and s = s])
  case Rejected
  then show ?thesis by (auto simp: compileShaders_rejected step_defs)
next
  case (BadStatus r0 r1)
  then show ?thesis by (auto simp: compileShaders_bad_status step_defs)
next
  case (Unreadable r0 r1)
  then show ?thesis by (auto simp: compileShaders_unreadable step_defs)
next
  case (NoContext r0 r1 vsrc fsrc)
  then show ?thesis by (simp add: compileShaders_no_context)
next
  case (Compiling r0 r1 vsrc fsrc)
  then show ?thesis by (auto simp: compileShaders_compiling step_defs)
qed

lemma compileShaders_console:
  "length (console s) \<le> length (console (snd (compileShaders e v f s)))"
proof (cases rule: compileShaders_cases [where e = e and v = v and f = f and s = s])
  case Rejected
  then show ?thesis by (simp add: compileShaders_rejected)
next
  case (BadStatus r0 r1)
  then show ?thesis by (simp add: compileShaders_bad_status)
next
  case (Unreadable r0 r1)
  then show ?thesis by (simp add: compileShaders_unreadable)
next
  case (NoContext r0 r1 vsrc fsrc)
  then show ?thesis by (simp add: compileShaders_no_context)
next
  case (Compiling r0 r1 vsrc fsrc)
  then show ?thesis by (simp add: compileShaders_compiling)
qed


lemma compileShaders_null:
  assumes "nothing_rejects e v f" "gl s \<noteq> None"
    and "\<not> (fetch_succeeded e v \<and> fetch_succeeded e f \<and>
            stage_compiled e VERTEX_SHADER v \<and> stage_compiled e FRAGMENT_SHADER f)"
  shows "fst (compileShaders e v f s) = Inr None \<and>
         length (console s) < length (console (snd (compileShaders e v f s)))"
proof (cases rule: compileShaders_cases [where e = e and v = v and f = f and s = s])
  case Rejected
  with assms(1) show ?thesis by (auto simp: nothing_rejects_def split: fetch_result.splits)
next
  case (BadStatus r0 r1)
  then show ?thesis by (simp add: compileShaders_bad_status)
next
  case (Unreadable r0 r1)
  with assms(1) show ?thesis by (auto simp: nothing_rejects_def)
next
  case (NoContext r0 r1 vsrc fsrc)
  with assms show ?thesis by simp
next
  case (Compiling r0 r1 vsrc fsrc)
  with assms show ?thesis by (auto simp: compileShaders_compiling step_defs)
qed

lemma createShaderProgram_eq:
  "createShaderProgram e v f s =
     (case fst (compileShaders e v f s) of
        Inl ex \<Rightarrow> (Inl ex, snd (compileShaders e v f s))
      | Inr None \<Rightarrow> (Inr None, error CouldNotLoadShaders (snd (compileShaders e v f s)))
      | Inr (Some shaders) \<Rightarrow>
          if gl s = None then (Inl TypeError, snd (compileShaders e v f s))
          else if link_status e shaders then
            (Inr (Some (Program shaders)), snd (compileShaders e v f s))
          else (Inr None, error (ErrorLinkingProgram (program_info_log e shaders))
                            (snd (compileShaders e v f s))))"
proof -
  obtain r s1 where cs: "compileShaders e v f s = (r, s1)" by (cases "compileShaders e v f s")
  have "gl s1 = gl s" using compileShaders_frame [of e v f s] cs by simp
  then show ?thesis
    by (auto simp: createShaderProgram_def cs Let_def split: sum.split option.split)
qed

lemma createShaderProgram_frame:
  "data (snd (createShaderProgram e v f s)) = data s \<and>
   width (snd (createShaderProgram e v f s)) = width s \<and>
   height (snd (createShaderProgram e v f s)) = height s \<and>
   gl (snd (createShaderProgram e v f s)) = gl s \<and>
   initialized (snd (createShaderProgram e v f s)) = initialized s"
  using compileShaders_frame [of e v f s]
  by (simp add: createShaderProgram_eq split: sum.split option.split)

lemma all_steps_compileShaders:
  assumes "gl s \<noteq> None" "all_steps_succeeded e v f"
  shows "\<exists>shs. fst (compileShaders e v f s) = Inr (Some shs) \<and> link_status e shs"
proof -
  from assms(2) obtain vsrc fsrc where
    src: "fetched_source e v = Some vsrc" "fetched_source e f = Some fsrc"
    by (auto simp: all_steps_succeeded_def stage_compiled_def split: option.splits)
  with assms have "fst (compileShaders e v f s) =
      Inr (Some [Shader VERTEX_SHADER vsrc, Shader FRAGMENT_SHADER fsrc])"
    by (subst compileShaders_Some_iff) (simp add: all_steps_succeeded_def)
  moreover from assms(2) src
  have "link_status e [Shader VERTEX_SHADER vsrc, Shader FRAGMENT_SHADER fsrc]"
    by (simp add: all_steps_succeeded_def program_linked_def)
  ultimately show ?thesis by blast
qed

lemma createShaderProgram_Some_iff:
  "(\<exists>p. fst (createShaderProgram e v f s) = Inr (Some p)) \<longleftrightarrow>
     gl s \<noteq> None \<and> all_steps_succeeded e v f"
proof
  assume "gl s \<noteq> None \<and> all_steps_succeeded e v f"
  then obtain shs where "fst (compileShaders e v f s) = Inr (Some shs)" "link_status e shs"
    and "gl s \<noteq> None"
    using all_steps_compileShaders [of s e v f] by blast
  then show "\<exists>p. fst (createShaderProgram e v f s) = Inr (Some p)"
    by (simp add: createShaderProgram_eq)
next
  assume "\<exists>p. fst (createShaderProgram e v f s) = Inr (Some p)"
  then obtain shs where cs: "fst (compileShaders e v f s) = Inr (Some shs)"
    and ln: "link_status e shs" and g: "gl s \<noteq> None"
    by (auto simp: createShaderProgram_eq split: sum.splits option.splits if_splits)
  from cs [unfolded compileShaders_Some_iff] obtain vsrc fsrc where
    *: "fetch_succeeded e v" "fetch_succeeded e f"
       "stage_compiled e VERTEX_SHADER v" "stage_compiled e FRAGMENT_SHADER f"
       "fetched_source e v = Some vsrc" "fetched_source e f = Some fsrc"
       "shs = [Shader VERTEX_SHADER vsrc, Shader FRAGMENT_SHADER fsrc]"
    by blast
  with ln have "program_linked e v f" by (simp add: program_linked_def)
  with * g show "gl s \<noteq> None \<and> all_steps_succeeded e v f"
    by (simp add: all_steps_succeeded_def)
qed

lemma createShaderProgram_null:
  assumes "nothing_rejects e v f" "gl s \<noteq> None" "\<not> all_steps_succeeded e v f"
  shows "fst (createShaderProgram e v f s) = Inr None \<and>
         length (console s) < length (console (snd (createShaderProgram e v f s)))"
proof (cases "fetch_succeeded e v \<and> fetch_succeeded e f \<and>
            stage_compiled e VERTEX_SHADER v \<and> stage_compiled e FRAGMENT_SHADER f")
  case False
  with compileShaders_null [OF assms(1,2)]
  have "fst (compileShaders e v f s) = Inr None"
    and "length (console s) < length (console (snd (compileShaders e v f s)))" by blast+
  then show ?thesis by (simp add: createShaderProgram_eq)
next
  case True
  then obtain vsrc fsrc where
    src: "fetched_source e v = Some vsrc" "fetched_source e f = Some fsrc"
    by (auto simp: stage_compiled_def split: option.splits)
  with True assms(2) have cs: "fst (compileShaders e v f s) =
      Inr (Some [Shader VERTEX_SHADER vsrc, Shader FRAGMENT_SHADER fsrc])"
    by (subst compileShaders_Some_iff) simp
  from True assms(3) src
  have "\<not> link_status e [Shader VERTEX_SHADER vsrc, Shader FRAGMENT_SHADER fsrc]"
    by (simp add: all_steps_succeeded_def program_linked_def)
  with cs assms(2) compileShaders_console [of s e v f] show ?thesis
    by (auto simp: createShaderProgram_eq)
qed

lemma createOrthographicMatrix_current_program:
  "gl s = Some c \<Longrightarrow>
   createOrthographicMatrix (s'\<lparr>gl := Some (c\<lparr>current_program := p\<rparr>)\<rparr>) =
     createOrthographicMatrix s"
  by (simp add: createOrthographicMatrix_def)

lemma initialize_eq:
  "initialize e v f s =
     (let s1 = snd (createShaderProgram e v f s)
      in case fst (createShaderProgram e v f s) of
           Inl ex \<Rightarrow> (Inl ex, s1)
         | Inr None \<Rightarrow> (Inr Null, error ErrorCreatingProgram (s1\<lparr>program := None\<rparr>))
         | Inr (Some prog) \<Rightarrow>
             (case gl s of
                None \<Rightarrow> (Inl TypeError, s1\<lparr>program := Some prog\<rparr>)
              | Some c \<Rightarrow>
                  (Inr Undefined,
                   s1\<lparr>program := Some prog,
                      gl := Some (c\<lparr>current_program := Some prog,
                        uniform_matrix := Some (scaleMatrix
                          (translateMatrix
                             (case createOrthographicMatrix s of Inl ex \<Rightarrow> [] | Inr m \<Rightarrow> m)
                             (Finite 0) (Finite 0))
                          (Finite (real_of_int (width s)))
                          (Finite (real_of_int (height s))))\<rparr>),
                      initialized := True\<rparr>)))"
proof -
  obtain r s1 where cs: "createShaderProgram e v f s = (r, s1)"
    by (cases "createShaderProgram e v f s")
  have fr: "gl s1 = gl s" "width s1 = width s" "height s1 = height s"
    using createShaderProgram_frame [of e v f s] cs by simp_all
  show ?thesis
  proof (cases r)
    case (Inl ex)
    then show ?thesis by (simp add: initialize_def cs)
  next
    case (Inr p)
    show ?thesis
    proof (cases p)
      case None
      with Inr show ?thesis by (simp add: initialize_def cs Let_def)
    next
      case (Some prog)
      show ?thesis
      proof (cases "gl s")
        case None
        with Inr Some fr show ?thesis by (simp add: initialize_def cs Let_def)
      next
        case (Some c)
        then obtain m where m: "createOrthographicMatrix s = Inr m"
          by (simp add: createOrthographicMatrix_def Let_def)
        with Inr \<open>p = Some prog\<close> Some fr show ?thesis
          by (simp add: initialize_def cs Let_def createOrthographicMatrix_current_program)
      qed
    qed
  qed
qed

lemma initialize_frame:
  "data (snd (initialize e v f s)) = data s \<and>
   width (snd (initialize e v f s)) = width s \<and>
   height (snd (initialize e v f s)) = height s \<and>
   (gl (snd (initialize e v f s)) = None) = (gl s = None)"
  using createShaderProgram_frame [of e v f s]
  by (simp add: initialize_eq Let_def split: sum.split option.split)


lemma initialize_null:
  assumes "nothing_rejects e v f" "gl s \<noteq> None" "\<not> all_steps_succeeded e v f"
  shows "fst (initialize e v f s) = Inr Null \<and>
         length (console s) < length (console (snd (initialize e v f s)))"
  using createShaderProgram_null [OF assms]
  by (simp add: initialize_eq Let_def)

lemma initialize_returns:
  assumes "nothing_rejects e v f" "gl s \<noteq> None"
  shows "\<exists>r. fst (initialize e v f s) = Inr r"
proof (cases "all_steps_succeeded e v f")
  case True
  with assms(2) obtain p where "fst (createShaderProgram e v f s) = Inr (Some p)"
    using createShaderProgram_Some_iff [of e v f s] by blast
  with assms(2) show ?thesis by (auto simp: initialize_eq Let_def)
next
  case False
  with initialize_null [OF assms] show ?thesis by simp
qed

lemma initialize_rejects:
  assumes "\<not> nothing_rejects e v f"
  shows "initialize e v f s = (Inl NetworkError, s)"
proof -
  have "compileShaders e v f s = (Inl NetworkError, s)"
  proof (cases rule: compileShaders_cases [where e = e and v = v and f = f and s = s])
    case Rejected
    then show ?thesis by (simp add: compileShaders_rejected)
  next
    case (BadStatus r0 r1)
    with assms show ?thesis by (auto simp: nothing_rejects_def)
  next
    case (Unreadable r0 r1)
    then show ?thesis by (simp add: compileShaders_unreadable)
  next
    case (NoContext r0 r1 vsrc fsrc)
    with assms show ?thesis by (simp add: nothing_rejects_def)
  next
    case (Compiling r0 r1 vsrc fsrc)
    with assms show ?thesis by (simp add: nothing_rejects_def)
  qed
  then show ?thesis by (simp add: initialize_eq createShaderProgram_eq Let_def)
qed

subsection \<open>What the methods leave alone\<close>

lemma buffer_ok_cong:
  "data s' = data s \<Longrightarrow> width s' = width s \<Longrightarrow> height s' = height s \<Longrightarrow>
   buffer_ok s' = buffer_ok s"
  by (simp add: buffer_ok_def split: option.splits)

lemma render_eq:
  "render t0 t1 s =
     (case gl s of
        None \<Rightarrow> (Inl TypeError, s)
      | Some c \<Rightarrow>
          (Inr Undefined,
           s\<lparr>gl := Some (c\<lparr>texture_image := data s, draw_calls := draw_calls c + 1\<rparr>),
              lastRenderDuration := t1 - t0, lastRenderEnded := t1\<rparr>))"
  by (simp add: render_def updateTexture_def split: option.split)

lemma render_frame:
  "data (snd (render t0 t1 s)) = data s \<and>
   width (snd (render t0 t1 s)) = width s \<and>
   height (snd (render t0 t1 s)) = height s \<and>
   (gl (snd (render t0 t1 s)) = None) = (gl s = None)"
  by (simp add: render_eq split: option.split)

lemma setPixel_frame:
  "map_option length (data (snd (setPixel x y r g b a s))) = map_option length (data s) \<and>
   width (snd (setPixel x y r g b a s)) = width s \<and>
   height (snd (setPixel x y r g b a s)) = height s \<and>
   gl (snd (setPixel x y r g b a s)) = gl s"
  by (simp add: setPixel_def Let_def split: option.split)

lemma loadPixelData_frame:
  "map_option length (data (snd (loadPixelData src s))) = map_option length (data s) \<and>
   width (snd (loadPixelData src s)) = width s \<and>
   height (snd (loadPixelData src s)) = height s \<and>
   gl (snd (loadPixelData src s)) = gl s"
  by (simp add: loadPixelData_def split: option.split pixel_source.split)

lemma buffer_ok_length:
  "map_option length (data s') = map_option length (data s) \<Longrightarrow>
   width s' = width s \<Longrightarrow> height s' = height s \<Longrightarrow> buffer_ok s' = buffer_ok s"
  by (cases "data s"; cases "data s'") (simp_all add: buffer_ok_def)

lemma usable_length:
  "map_option length (data s') = map_option length (data s) \<Longrightarrow>
   (gl s' = None) = (gl s = None) \<Longrightarrow> usable s' = usable s"
  by (cases "data s"; cases "data s'") (simp_all add: usable_def)

lemma construct_safe:
  assumes "construct e canvasID w h = Inr s" "safe s"
  shows "width s = w" "height s = h" "data s = Some (replicate (nat (w * h * 4)) 0)"
    "0 \<le> w * h * 4" "buffer_ok s" "usable s" "initialized s = False" "console s = []"
    "gl s = Some \<lparr>canvas_width = canvas_dimension 300 w,
                   canvas_height = canvas_dimension 150 h, viewport = (0, 0, w, h),
                   texture_image = Some (replicate (nat (w * h * 4)) 0),
                   current_program = None, uniform_matrix = None, draw_calls = 0\<rparr>"
  using assms
  by (auto simp: construct_def Let_def buffer_ok_def usable_def unset_def error_def
      mult.commute [of h w] split: if_splits sum.splits)

text \<open>
  C9. An instance whose constructor succeeded keeps the width and height it was given
  and has a buffer of \<open>width * height * 4\<close> bytes. \<^verbatim>\<open>setPixel\<close> (at any coordinates),
  \<^verbatim>\<open>loadPixelData\<close> (with any argument), \<^verbatim>\<open>render\<close> and \<^verbatim>\<open>initialize\<close> change neither the
  length of the buffer nor the width nor the height, so the length stays
  \<open>width * height * 4\<close>. \<^verbatim>\<open>getPixel\<close> returns a record and has no instance to hand back.
\<close>

theorem buffer_length_invariant:
  "(construct e canvasID w h = Inr s0 \<and> safe s0 \<longrightarrow>
      width s0 = w \<and> height s0 = h \<and>
      map_option (\<lambda>d. int (length d)) (data s0) = Some (w * h * 4) \<and> buffer_ok s0) \<and>
   map_option length (data (snd (setPixel x y r g b a s))) = map_option length (data s) \<and>
   width (snd (setPixel x y r g b a s)) = width s \<and>
   height (snd (setPixel x y r g b a s)) = height s \<and>
   map_option length (data (snd (loadPixelData src s))) = map_option length (data s) \<and>
   width (snd (loadPixelData src s)) = width s \<and>
   height (snd (loadPixelData src s)) = height s \<and>
   map_option length (data (snd (render t0 t1 s))) = map_option length (data s) \<and>
   width (snd (render t0 t1 s)) = width s \<and>
   height (snd (render t0 t1 s)) = height s \<and>
   map_option length
     (data (snd (initialize e vertexShaderURI fragementShaderURI s))) =
     map_option length (data s) \<and>
   width (snd (initialize e vertexShaderURI fragementShaderURI s)) = width s \<and>
   height (snd (initialize e vertexShaderURI fragementShaderURI s)) = height s \<and>
   (buffer_ok s \<longrightarrow>
      buffer_ok (snd (setPixel x y r g b a s)) \<and>
      buffer_ok (snd (loadPixelData src s)) \<and>
      buffer_ok (snd (render t0 t1 s)) \<and>
      buffer_ok (snd (initialize e vertexShaderURI fragementShaderURI s)))"
proof -
  have c: "construct e canvasID w h = Inr s0 \<and> safe s0 \<longrightarrow>
      width s0 = w \<and> height s0 = h \<and>
      map_option (\<lambda>d. int (length d)) (data s0) = Some (w * h * 4) \<and> buffer_ok s0"
    using construct_safe [of e canvasID w h s0] by simp
  note sp = setPixel_frame [of x y r g b a s]
  note lp = loadPixelData_frame [of src s]
  note rn = render_frame [of t0 t1 s]
  note it = initialize_frame [of e vertexShaderURI fragementShaderURI s]
  have "buffer_ok (snd (setPixel x y r g b a s)) = buffer_ok s"
    using sp by (intro buffer_ok_length) simp_all
  moreover have "buffer_ok (snd (loadPixelData src s)) = buffer_ok s"
    using lp by (intro buffer_ok_length) simp_all
  moreover have "buffer_ok (snd (render t0 t1 s)) = buffer_ok s"
    using rn by (intro buffer_ok_cong) simp_all
  moreover have "buffer_ok (snd (initialize e vertexShaderURI fragementShaderURI s)) =
                 buffer_ok s"
    using it by (intro buffer_ok_cong) simp_all
  ultimately show ?thesis using c sp lp rn it by simp
qed

theorem buffer_length_invariant_witness:
  "construct demo_env ''canvas'' 2 2 = Inr instance_2x2 \<and> safe instance_2x2 \<and>
   width instance_2x2 = 2 \<and> height instance_2x2 = 2 \<and>
   map_option (\<lambda>d. int (length d)) (data instance_2x2) = Some 16 \<and>
   buffer_ok instance_2x2 \<and>
   map_option length (data (snd (setPixel 7 (- 3) 1 2 3 4 instance_2x2))) =
     map_option length (data instance_2x2) \<and>
   buffer_ok (snd (setPixel 7 (- 3) 1 2 3 4 instance_2x2)) \<and>
   buffer_ok (snd (loadPixelData (ArrayLike [1, 2, 3]) instance_2x2)) \<and>
   buffer_ok (snd (loadPixelData Nullish instance_2x2)) \<and>
   buffer_ok (snd (render 0 1 instance_2x2)) \<and>
   buffer_ok (snd (initialize demo_env ''shaders/pixelGL.vert'' ''shaders/pixelGL.frag''
     instance_2x2))"
  using buffer_length_invariant [of demo_env "''canvas''" 2 2 instance_2x2
      7 "- 3" 1 2 3 4 instance_2x2 "ArrayLike [1, 2, 3]" 0 1
      "''shaders/pixelGL.vert''" "''shaders/pixelGL.frag''"]
    buffer_length_invariant [of demo_env "''canvas''" 2 2 instance_2x2
      7 "- 3" 1 2 3 4 instance_2x2 Nullish 0 1
      "''shaders/pixelGL.vert''" "''shaders/pixelGL.frag''"]
    construct_2x2 instance_2x2_fields(3)
  by simp

subsection \<open>Initialization\<close>



lemma fragment_missing_env_steps:
  "\<not> all_steps_succeeded fragment_missing_env v ''shaders/pixelGL.frag''"
  "sources_arrived fragment_missing_env v ''shaders/pixelGL.frag''"
  "nothing_rejects fragment_missing_env v ''shaders/pixelGL.frag''"
  by (simp_all add: step_defs nothing_rejects_def fragment_missing_env_def demo_env_def)

lemma offline_env_steps:
  "\<not> all_steps_succeeded offline_env v f" "\<not> sources_arrived offline_env v f"
  "\<not> nothing_rejects offline_env v f"
  by (simp_all add: step_defs nothing_rejects_def offline_env_def demo_env_def)



subsection \<open>Exceptions at the public boundary\<close>

lemma usable_preserved:
  "usable s \<Longrightarrow> map_option length (data s') = map_option length (data s) \<Longrightarrow>
   (gl s' = None) = (gl s = None) \<Longrightarrow> usable s'"
  by (cases "data s"; cases "data s'") (simp_all add: usable_def)

lemma construct_with_element: "querySelector e (CHR ''#'' # canvasID) = Inr True \<longrightarrow>
      (getContext e canvasID = Inl ex \<longrightarrow> construct e canvasID w h = Inl ex) \<and>
      (getContext e canvasID = Inr False \<longrightarrow>
         construct e canvasID w h = Inr (error (ErrorGettingContext canvasID) unset)) \<and>
      (getContext e canvasID = Inr True \<longrightarrow>
         (w * h * 4 < 0 \<or> \<not> can_allocate e (w * h * 4) \<longrightarrow>
            construct e canvasID w h = Inl RangeError) \<and>
         (0 \<le> w * h * 4 \<and> can_allocate e (w * h * 4) \<longrightarrow>
            (\<exists>s0. construct e canvasID w h = Inr s0 \<and> safe s0 \<and> usable s0)))"
proof -
  define bc where "bc = w * h * 4"
  have "construct e canvasID w h =
     (case querySelector e (CHR ''#'' # canvasID) of
        Inl ex \<Rightarrow> Inl ex
      | Inr found \<Rightarrow>
          if \<not> found then Inr (error (ErrorFindingCanvas canvasID) unset)
          else
            (case getContext e canvasID of
               Inl ex \<Rightarrow> Inl ex
             | Inr context \<Rightarrow>
                 if \<not> context then Inr (error (ErrorGettingContext canvasID) unset)
                 else if bc < 0 \<or> \<not> can_allocate e bc then Inl RangeError
                      else Inr (unset\<lparr>gl := Some \<lparr>canvas_width = canvas_dimension 300 w,
                                 canvas_height = canvas_dimension 150 h,
                                 viewport = (0, 0, w, h),
                                 texture_image = Some (replicate (nat bc) 0), current_program = None,
                                 uniform_matrix = None, draw_calls = 0\<rparr>, width := w, height := h,
                                     pixelCount := w * h, byteCount := bc, data := Some (replicate (nat bc) 0),
                                     safe := True\<rparr>)))"
    unfolding construct_def Let_def bc_def ..
  then show ?thesis
    unfolding bc_def [symmetric]
    by (auto simp: usable_def unset_def)
qed

text \<open>
  C6. The claim: no public operation lets an exception cross the public boundary,
  also when a shader fetch rejects. On the code this fails: when a fetch rejects,
  \<^verbatim>\<open>Promise.all\<close> rejects, the class has no handler anywhere, and the promise of
  \<^verbatim>\<open>initialize\<close> rejects with nothing logged and the instance as it was.
\<close>

theorem initialize_propagates_fetch_rejection:
  "initialize offline_env ''shaders/pixelGL.vert'' ''shaders/pixelGL.frag'' instance_2x2 =
     (Inl NetworkError, instance_2x2)"
  by (rule initialize_rejects) (simp add: offline_env_steps)

text \<open>
  C6, amended. The failures that the class tests for end in a diagnostic and a
  \<^verbatim>\<open>null\<close> or void result: no element for the id and no WebGL context in the
  constructor, a status other than 200, a failed compilation and a failed link in
  \<^verbatim>\<open>initialize\<close>, a source of the wrong length in \<^verbatim>\<open>loadPixelData\<close>. The exceptions of the
  platform cross the boundary: the constructor throws what \<^verbatim>\<open>document.querySelector\<close>
  throws (a syntax error for an id that gives no selector), what \<^verbatim>\<open>getContext\<close> throws
  (a type error for an element without it), and a range error when the buffer length
  is negative or cannot be allocated; \<^verbatim>\<open>loadPixelData\<close> throws a type error for \<^verbatim>\<open>null\<close> or
  \<^verbatim>\<open>undefined\<close>; \<^verbatim>\<open>initialize\<close> rejects, with nothing logged and the instance unchanged,
  exactly when a request or the reading of a body rejects. Otherwise, on an instance
  that has its context and its buffer (every instance with \<open>safe = true\<close>), \<^verbatim>\<open>setPixel\<close>,
  \<^verbatim>\<open>getPixel\<close>, \<^verbatim>\<open>loadPixelData\<close> on an array, \<^verbatim>\<open>render\<close> and \<^verbatim>\<open>initialize\<close> return and leave
  such an instance.
\<close>

theorem checked_failures_return_and_platform_exceptions_propagate:
  "(querySelector e (CHR ''#'' # canvasID) = Inl ex \<longrightarrow> construct e canvasID w h = Inl ex) \<and>
   (querySelector e (CHR ''#'' # canvasID) = Inr False \<longrightarrow>
      construct e canvasID w h = Inr (error (ErrorFindingCanvas canvasID) unset)) \<and>
   (querySelector e (CHR ''#'' # canvasID) = Inr True \<longrightarrow>
      (getContext e canvasID = Inl ex \<longrightarrow> construct e canvasID w h = Inl ex) \<and>
      (getContext e canvasID = Inr False \<longrightarrow>
         construct e canvasID w h = Inr (error (ErrorGettingContext canvasID) unset)) \<and>
      (getContext e canvasID = Inr True \<longrightarrow>
         (w * h * 4 < 0 \<or> \<not> can_allocate e (w * h * 4) \<longrightarrow>
            construct e canvasID w h = Inl RangeError) \<and>
         (0 \<le> w * h * 4 \<and> can_allocate e (w * h * 4) \<longrightarrow>
            (\<exists>s0. construct e canvasID w h = Inr s0 \<and> safe s0 \<and> usable s0)))) \<and>
   (construct e canvasID w h = Inr s0 \<and> safe s0 \<longrightarrow> usable s0) \<and>
   (usable s \<longrightarrow>
      fst (setPixel x y r g b a s) = Inr Undefined \<and>
      usable (snd (setPixel x y r g b a s)) \<and>
      (\<exists>p. getPixel x y s = Inr p) \<and>
      fst (loadPixelData (ArrayLike source) s) = Inr Undefined \<and>
      usable (snd (loadPixelData (ArrayLike source) s)) \<and>
      loadPixelData Nullish s = (Inl TypeError, s) \<and>
      fst (render t0 t1 s) = Inr Undefined \<and>
      usable (snd (render t0 t1 s)) \<and>
      usable (snd (initialize e vertexShaderURI fragementShaderURI s)) \<and>
      ((\<exists>res. fst (initialize e vertexShaderURI fragementShaderURI s) = Inr res) \<longleftrightarrow>
         nothing_rejects e vertexShaderURI fragementShaderURI) \<and>
      (\<not> nothing_rejects e vertexShaderURI fragementShaderURI \<longrightarrow>
         initialize e vertexShaderURI fragementShaderURI s = (Inl NetworkError, s)) \<and>
      (nothing_rejects e vertexShaderURI fragementShaderURI \<and>
       \<not> all_steps_succeeded e vertexShaderURI fragementShaderURI \<longrightarrow>
         fst (initialize e vertexShaderURI fragementShaderURI s) = Inr Null \<and>
         length (console s) <
           length (console (snd (initialize e vertexShaderURI fragementShaderURI s)))))"
proof -
  have c1: "querySelector e (CHR ''#'' # canvasID) = Inl ex \<longrightarrow>
      construct e canvasID w h = Inl ex"
    by (simp add: construct_def)
  have c2: "querySelector e (CHR ''#'' # canvasID) = Inr False \<longrightarrow>
      construct e canvasID w h = Inr (error (ErrorFindingCanvas canvasID) unset)"
    by (simp add: construct_def)
  have c3: "querySelector e (CHR ''#'' # canvasID) = Inr True \<longrightarrow>
      (getContext e canvasID = Inl ex \<longrightarrow> construct e canvasID w h = Inl ex) \<and>
      (getContext e canvasID = Inr False \<longrightarrow>
         construct e canvasID w h = Inr (error (ErrorGettingContext canvasID) unset)) \<and>
      (getContext e canvasID = Inr True \<longrightarrow>
         (w * h * 4 < 0 \<or> \<not> can_allocate e (w * h * 4) \<longrightarrow>
            construct e canvasID w h = Inl RangeError) \<and>
         (0 \<le> w * h * 4 \<and> can_allocate e (w * h * 4) \<longrightarrow>
            (\<exists>s0. construct e canvasID w h = Inr s0 \<and> safe s0 \<and> usable s0)))"
    by (rule construct_with_element)
  have c4: "construct e canvasID w h = Inr s0 \<and> safe s0 \<longrightarrow> usable s0"
    using construct_safe(6) [of e canvasID w h s0] by blast
  have ops: "fst (setPixel x y r g b a s) = Inr Undefined \<and>
      usable (snd (setPixel x y r g b a s)) \<and>
      (\<exists>p. getPixel x y s = Inr p) \<and>
      fst (loadPixelData (ArrayLike source) s) = Inr Undefined \<and>
      usable (snd (loadPixelData (ArrayLike source) s)) \<and>
      loadPixelData Nullish s = (Inl TypeError, s) \<and>
      fst (render t0 t1 s) = Inr Undefined \<and>
      usable (snd (render t0 t1 s)) \<and>
      usable (snd (initialize e vertexShaderURI fragementShaderURI s)) \<and>
      ((\<exists>res. fst (initialize e vertexShaderURI fragementShaderURI s) = Inr res) \<longleftrightarrow>
         nothing_rejects e vertexShaderURI fragementShaderURI) \<and>
      (\<not> nothing_rejects e vertexShaderURI fragementShaderURI \<longrightarrow>
         initialize e vertexShaderURI fragementShaderURI s = (Inl NetworkError, s)) \<and>
      (nothing_rejects e vertexShaderURI fragementShaderURI \<and>
       \<not> all_steps_succeeded e vertexShaderURI fragementShaderURI \<longrightarrow>
         fst (initialize e vertexShaderURI fragementShaderURI s) = Inr Null \<and>
         length (console s) <
           length (console (snd (initialize e vertexShaderURI fragementShaderURI s))))"
    if u: "usable s"
  proof -
    from u obtain c d where c: "gl s = Some c" and d: "data s = Some d"
      by (auto simp: usable_def)
    have h1: "fst (setPixel x y r g b a s) = Inr Undefined"
      by (simp add: setPixel_def Let_def d)
    have h2: "usable (snd (setPixel x y r g b a s))"
      by (rule usable_preserved [OF u]) (simp_all add: setPixel_frame)
    have h3: "\<exists>p. getPixel x y s = Inr p"
      by (simp add: getPixel_def Let_def d)
    have h4: "fst (loadPixelData (ArrayLike source) s) = Inr Undefined"
      by (simp add: loadPixelData_def d)
    have h5: "usable (snd (loadPixelData (ArrayLike source) s))"
      by (rule usable_preserved [OF u]) (simp_all add: loadPixelData_frame)
    have h6: "loadPixelData Nullish s = (Inl TypeError, s)"
      by (simp add: loadPixelData_def)
    have h7: "fst (render t0 t1 s) = Inr Undefined"
      by (simp add: render_eq c)
    have h8: "usable (snd (render t0 t1 s))"
      by (rule usable_preserved [OF u]) (simp_all add: render_frame)
    have h9: "usable (snd (initialize e vertexShaderURI fragementShaderURI s))"
      by (rule usable_preserved [OF u]) (simp_all add: initialize_frame)
    have h11: "\<not> nothing_rejects e vertexShaderURI fragementShaderURI \<longrightarrow>
        initialize e vertexShaderURI fragementShaderURI s = (Inl NetworkError, s)"
      using initialize_rejects [of e vertexShaderURI fragementShaderURI s] by blast
    have h10: "(\<exists>res. fst (initialize e vertexShaderURI fragementShaderURI s) = Inr res) \<longleftrightarrow>
        nothing_rejects e vertexShaderURI fragementShaderURI"
    proof
      assume "\<exists>res. fst (initialize e vertexShaderURI fragementShaderURI s) = Inr res"
      with h11 show "nothing_rejects e vertexShaderURI fragementShaderURI" by auto
    next
      assume "nothing_rejects e vertexShaderURI fragementShaderURI"
      then show "\<exists>res. fst (initialize e vertexShaderURI fragementShaderURI s) = Inr res"
        using initialize_returns [of e vertexShaderURI fragementShaderURI s] c by simp
    qed
    have h12: "nothing_rejects e vertexShaderURI fragementShaderURI \<and>
        \<not> all_steps_succeeded e vertexShaderURI fragementShaderURI \<longrightarrow>
        fst (initialize e vertexShaderURI fragementShaderURI s) = Inr Null \<and>
        length (console s) <
          length (console (snd (initialize e vertexShaderURI fragementShaderURI s)))"
      using initialize_null [of e vertexShaderURI fragementShaderURI s] c by simp
    show ?thesis by (intro conjI h1 h2 h3 h4 h5 h6 h7 h8 h9 h10 h11 h12)
  qed
  have c5: "usable s \<longrightarrow>
      fst (setPixel x y r g b a s) = Inr Undefined \<and>
      usable (snd (setPixel x y r g b a s)) \<and>
      (\<exists>p. getPixel x y s = Inr p) \<and>
      fst (loadPixelData (ArrayLike source) s) = Inr Undefined \<and>
      usable (snd (loadPixelData (ArrayLike source) s)) \<and>
      loadPixelData Nullish s = (Inl TypeError, s) \<and>
      fst (render t0 t1 s) = Inr Undefined \<and>
      usable (snd (render t0 t1 s)) \<and>
      usable (snd (initialize e vertexShaderURI fragementShaderURI s)) \<and>
      ((\<exists>res. fst (initialize e vertexShaderURI fragementShaderURI s) = Inr res) \<longleftrightarrow>
         nothing_rejects e vertexShaderURI fragementShaderURI) \<and>
      (\<not> nothing_rejects e vertexShaderURI fragementShaderURI \<longrightarrow>
         initialize e vertexShaderURI fragementShaderURI s = (Inl NetworkError, s)) \<and>
      (nothing_rejects e vertexShaderURI fragementShaderURI \<and>
       \<not> all_steps_succeeded e vertexShaderURI fragementShaderURI \<longrightarrow>
         fst (initialize e vertexShaderURI fragementShaderURI s) = Inr Null \<and>
         length (console s) <
           length (console (snd (initialize e vertexShaderURI fragementShaderURI s))))"
    using ops by (rule impI)
  show ?thesis by (intro conjI c1 c2 c3 c4 c5)
qed

theorem checked_failures_return_and_platform_exceptions_propagate_witness:
  "construct demo_env [] 2 2 = Inl SyntaxError \<and>
   construct demo_env ''missing'' 2 2 = Inr (error (ErrorFindingCanvas ''missing'') unset) \<and>
   construct not_a_canvas_env ''canvas'' 2 2 = Inl TypeError \<and>
   construct no_webgl_env ''canvas'' 2 2 =
     Inr (error (ErrorGettingContext ''canvas'') unset) \<and>
   construct demo_env ''canvas'' 100000 100000 = Inl RangeError \<and>
   construct demo_env ''canvas'' (- 1) 1 = Inl RangeError \<and>
   construct demo_env ''canvas'' 2 2 = Inr instance_2x2 \<and> safe instance_2x2 \<and>
   usable instance_2x2 \<and>
   fst (setPixel 7 (- 3) 1 2 3 4 instance_2x2) = Inr Undefined \<and>
   (\<exists>p. getPixel 7 (- 3) instance_2x2 = Inr p) \<and>
   fst (loadPixelData (ArrayLike [1, 2, 3]) instance_2x2) = Inr Undefined \<and>
   loadPixelData Nullish instance_2x2 = (Inl TypeError, instance_2x2) \<and>
   fst (render 0 1 instance_2x2) = Inr Undefined \<and>
   nothing_rejects fragment_missing_env ''shaders/pixelGL.vert'' ''shaders/pixelGL.frag'' \<and>
   \<not> all_steps_succeeded fragment_missing_env ''shaders/pixelGL.vert''
     ''shaders/pixelGL.frag'' \<and>
   fst (initialize fragment_missing_env ''shaders/pixelGL.vert'' ''shaders/pixelGL.frag''
     instance_2x2) = Inr Null \<and>
   0 < length (console (snd (initialize fragment_missing_env ''shaders/pixelGL.vert''
     ''shaders/pixelGL.frag'' instance_2x2))) \<and>
   \<not> nothing_rejects offline_env ''shaders/pixelGL.vert'' ''shaders/pixelGL.frag'' \<and>
   initialize offline_env ''shaders/pixelGL.vert'' ''shaders/pixelGL.frag'' instance_2x2 =
     (Inl NetworkError, instance_2x2)"
proof -
  note main = checked_failures_return_and_platform_exceptions_propagate
  note envs = demo_env_def no_webgl_env_def not_a_canvas_env_def
  have "construct demo_env [] 2 2 = Inl SyntaxError"
    using main [where e = demo_env and canvasID = "[]" and ex = SyntaxError and w = 2 and h = 2]
    by (simp add: envs)
  moreover have "construct demo_env ''missing'' 2 2 =
      Inr (error (ErrorFindingCanvas ''missing'') unset)"
    using main [where e = demo_env and canvasID = "''missing''" and w = 2 and h = 2]
    by (simp add: envs)
  moreover have "construct not_a_canvas_env ''canvas'' 2 2 = Inl TypeError"
    using main [where e = not_a_canvas_env and canvasID = "''canvas''" and ex = TypeError
        and w = 2 and h = 2]
    by (simp add: envs)
  moreover have "construct no_webgl_env ''canvas'' 2 2 =
      Inr (error (ErrorGettingContext ''canvas'') unset)"
    using main [where e = no_webgl_env and canvasID = "''canvas''" and w = 2 and h = 2]
    by (simp add: envs)
  moreover have "construct demo_env ''canvas'' 100000 100000 = Inl RangeError"
    using main [where e = demo_env and canvasID = "''canvas''" and w = 100000 and h = 100000]
    by (simp add: envs)
  moreover have "construct demo_env ''canvas'' (- 1) 1 = Inl RangeError"
    using main [where e = demo_env and canvasID = "''canvas''" and w = "- 1" and h = 1]
    by (simp add: envs)
  moreover have "fst (setPixel 7 (- 3) 1 2 3 4 instance_2x2) = Inr Undefined \<and>
      (\<exists>p. getPixel 7 (- 3) instance_2x2 = Inr p) \<and>
      fst (loadPixelData (ArrayLike [1, 2, 3]) instance_2x2) = Inr Undefined \<and>
      loadPixelData Nullish instance_2x2 = (Inl TypeError, instance_2x2) \<and>
      fst (render 0 1 instance_2x2) = Inr Undefined \<and>
      fst (initialize fragment_missing_env ''shaders/pixelGL.vert'' ''shaders/pixelGL.frag''
        instance_2x2) = Inr Null \<and>
      0 < length (console (snd (initialize fragment_missing_env ''shaders/pixelGL.vert''
        ''shaders/pixelGL.frag'' instance_2x2)))"
    using main [where e = fragment_missing_env and s = instance_2x2 and x = 7 and y = "- 3"
        and r = 1 and g = 2 and b = 3 and a = 4 and source = "[1, 2, 3]" and ?t0.0 = 0
        and ?t1.0 = 1 and vertexShaderURI = "''shaders/pixelGL.vert''"
        and fragementShaderURI = "''shaders/pixelGL.frag''"]
    by (simp add: instance_2x2_fields fragment_missing_env_steps)
  moreover have "initialize offline_env ''shaders/pixelGL.vert'' ''shaders/pixelGL.frag''
      instance_2x2 = (Inl NetworkError, instance_2x2)"
    using main [where e = offline_env and s = instance_2x2
        and vertexShaderURI = "''shaders/pixelGL.vert''"
        and fragementShaderURI = "''shaders/pixelGL.frag''"]
    by (simp add: instance_2x2_fields offline_env_steps)
  ultimately show ?thesis
    using construct_2x2
    by (simp add: instance_2x2_fields fragment_missing_env_steps offline_env_steps)
qed

subsection \<open>What the diagnostics name\<close>

text \<open>
  C7. The claim: the diagnostic of a failed compilation names the stage that failed.
  On the code this fails for the fragment stage: the two tests that choose the name
  are assignments, the first assigns a non-zero constant, and a fragment shader that
  does not compile is reported as \<^verbatim>\<open>vertex shader\<close>.
\<close>

theorem compileShader_reports_fragment_failure_as_vertex:
  "compileShader fragment_broken_env ''void main() {'' FRAGMENT_SHADER instance_2x2 =
     (Inr None,
      error (ErrorCompilingShader ''vertex shader'' ''ERROR: 0:1: syntax error'')
        instance_2x2)"
  using instance_2x2_fields(6)
  by (simp add: compileShader_eq fragment_broken_env_def demo_env_def)

text \<open>
  C8. The claim: when a fetch answers with a status other than success, the call
  returns \<^verbatim>\<open>null\<close> and the diagnostic names the URI and status of the fetch that failed.
  On the code the URI fails: the message always interpolates \<^verbatim>\<open>vertexShaderURI\<close>. When
  the vertex source arrives and the fragment source is answered with 404, the call
  returns \<^verbatim>\<open>null\<close> and the diagnostic carries the status of the fragment response under
  the URI of the vertex shader.
\<close>

theorem compileShaders_reports_fragment_status_under_vertex_uri:
  "compileShaders fragment_missing_env ''shaders/pixelGL.vert'' ''shaders/pixelGL.frag''
     instance_2x2 =
     (Inr None,
      error (ErrorRetrievingSource ''shaders/pixelGL.vert'' ''Not Found'' 404) instance_2x2)"
  by (simp add: compileShaders_def Let_def fragment_missing_env_def demo_env_def)

subsection \<open>Rounding\<close>

lemma pow2_positive: "0 < pow2 k"
  by (simp add: pow2_def)

lemma pow2_powr: "pow2 k = 2 powr real_of_int k"
proof (cases "0 \<le> k")
  case True
  then have "2 powr real_of_int k = (2::real) powr real (nat k)" by simp
  also have "\<dots> = 2 ^ nat k" by (rule powr_realpow) simp
  finally show ?thesis using True by (simp add: pow2_def)
next
  case False
  then have "2 powr real_of_int k = (2::real) powr (- real (nat (- k)))" by simp
  also have "\<dots> = 1 / 2 powr real (nat (- k))" by (simp add: powr_minus_divide)
  also have "2 powr real (nat (- k)) = (2::real) ^ nat (- k)" by (rule powr_realpow) simp
  finally show ?thesis using False by (simp add: pow2_def)
qed

text \<open>The binade of a number that lies between two neighbouring powers of two.\<close>

lemma binade_eqI:
  assumes "pow2 k \<le> \<bar>x\<bar>" "\<bar>x\<bar> < pow2 (k + 1)"
  shows "binade x = k"
proof -
  have pos: "0 < \<bar>x\<bar>" using assms(1) pow2_positive [of k] by linarith
  have "real_of_int k \<le> log 2 \<bar>x\<bar>"
    using assms(1) pos by (simp add: le_log_iff pow2_powr)
  moreover have "log 2 \<bar>x\<bar> < real_of_int k + 1"
    using assms(2) pos by (simp add: log_less_iff pow2_powr add.commute)
  ultimately show ?thesis unfolding binade_def by (simp add: floor_eq_iff)
qed

lemma binade_one [simp]: "binade 1 = 0" "binade (- 1) = 0"
  by (simp_all add: binade_def)

lemma to_double_small [simp]:
  "to_double 0 = Finite 0" "to_double 1 = Finite 1" "to_double (- 1) = Finite (- 1)"
  by (simp_all add: to_double_def ieee_round_def pow2_def Let_def round_half_even_def)

lemma to_float32_small [simp]:
  "to_float32 0 = Finite 0" "to_float32 1 = Finite 1" "to_float32 (- 1) = Finite (- 1)"
  by (simp_all add: to_float32_def ieee_round_def pow2_def Let_def round_half_even_def)

text \<open>\<open>2 / 960\<close> as a double, and that double in single precision.\<close>

lemma binade_480: "binade (1 / 480) = - 9"
  by (rule binade_eqI) (simp_all add: pow2_def)

lemma to_double_480: "to_double (1 / 480) = Finite (4803839602528529 / 2305843009213693952)"
  by (simp add: to_double_def ieee_round_def binade_480 pow2_def Let_def round_half_even_def)

lemma binade_480_double: "binade (4803839602528529 / 2305843009213693952) = - 9"
  by (rule binade_eqI) (simp_all add: pow2_def)

lemma to_float32_480:
  "to_float32 (4803839602528529 / 2305843009213693952) = Finite (8947849 / 4294967296)"
  by (simp add: to_float32_def ieee_round_def binade_480_double pow2_def Let_def
      round_half_even_def)

text \<open>\<open>2 / (0 - 640)\<close> as a double, and that double in single precision.\<close>

lemma binade_320: "binade (- (1 / 320)) = - 9"
  by (rule binade_eqI) (simp_all add: pow2_def)

lemma to_double_320:
  "to_double (- (1 / 320)) = Finite (- (3602879701896397 / 1152921504606846976))"
  by (simp add: to_double_def ieee_round_def binade_320 pow2_def Let_def round_half_even_def)

lemma binade_320_double: "binade (- (3602879701896397 / 1152921504606846976)) = - 9"
  by (rule binade_eqI) (simp_all add: pow2_def)

lemma to_float32_320:
  "to_float32 (- (3602879701896397 / 1152921504606846976)) =
     Finite (- (13421773 / 4294967296))"
  by (simp add: to_float32_def ieee_round_def binade_320_double pow2_def Let_def
      round_half_even_def)

lemmas rounded_scale_terms =
  to_double_480 to_float32_480 to_double_320 to_float32_320

subsection \<open>Matrices\<close>

lemma translateMatrix_keeps_first_twelve:
  assumes "length src = 16" and "\<forall>v \<in> set src. Float32Array_store v = v"
  shows "take 12 (translateMatrix src tx ty) = take 12 src"
proof -
  from assms(1) obtain a0 a1 a2 a3 a4 a5 a6 a7 a8 a9 a10 a11 a12 a13 a14 a15
    where "src = [a0, a1, a2, a3, a4, a5, a6, a7, a8, a9, a10, a11, a12, a13, a14, a15]"
    by (auto simp: numeral_eq_Suc length_Suc_conv)
  with assms(2) show ?thesis
    by (simp add: translateMatrix_def Let_def Float32Array_get_def)
qed

lemma construct_960x640:
  "construct demo_env ''canvas'' 960 640 = Inr instance_960x640" "safe instance_960x640"
  by (simp_all add: instance_960x640_def instance_of_def construct_def demo_env_def Let_def
      unset_def)

lemma orthographic_960x640:
  "createOrthographicMatrix instance_960x640 =
     Inr (map Finite
       [8947849 / 4294967296, 0, 0, 0,  0, - (13421773 / 4294967296), 0, 0,
        0, 0, - 1, 0,  - 1, 1, 0, 1])"
  by (simp add: createOrthographicMatrix_def instance_960x640_def instance_of_def
      construct_def demo_env_def unset_def Let_def canvas_dimension_def js_quotient_def
      rounded_scale_terms)

lemma translateMatrix_moves_orthographic_matrix:
  "translateMatrix
     (map Finite
       [8947849 / 4294967296, 0, 0, 0,  0, - (13421773 / 4294967296), 0, 0,
        0, 0, - 1, 0,  - 1, 1, 0, 1]) (Finite 0) (Finite 0) =
   map Finite
     [8947849 / 4294967296, 0, 0, 0,  0, - (13421773 / 4294967296), 0, 0,
      0, 0, - 1, 0,  - 1, 1, - 1, 1]"
proof -
  have "to_float32 (8947849 / 4294967296) = Finite (8947849 / 4294967296)"
    by (simp add: to_float32_def ieee_round_def pow2_def Let_def round_half_even_def
        binade_eqI [of "- 9"])
  moreover have "to_float32 (- (13421773 / 4294967296)) = Finite (- (13421773 / 4294967296))"
    by (simp add: to_float32_def ieee_round_def pow2_def Let_def round_half_even_def
        binade_eqI [of "- 9"])
  ultimately show ?thesis
    by (simp add: translateMatrix_def Let_def Float32Array_get_def)
qed

text \<open>
  C4. The claim: \<^verbatim>\<open>translateMatrix(m, tx, ty)\<close> is \<open>m\<close> times the translation matrix of
  \<open>(tx, ty)\<close>, and \<^verbatim>\<open>translateMatrix(m, 0, 0)\<close> is \<open>m\<close>. On the code this fails at the
  identity matrix: the last column adds the third column of the source unscaled, so
  translating the identity by \<open>(0, 0)\<close> gives a matrix with entry 14 equal to 1, which
  is neither the identity nor its product with the translation matrix of \<open>(0, 0)\<close>.
\<close>

theorem translateMatrix_by_zero_changes_identity:
  "translateMatrix (map Finite identity_matrix) (Finite 0) (Finite 0) =
     map Finite [1, 0, 0, 0,  0, 1, 0, 0,  0, 0, 1, 0,  0, 0, 1, 1] \<and>
   translateMatrix (map Finite identity_matrix) (Finite 0) (Finite 0) \<noteq>
     map Finite identity_matrix \<and>
   matrix_product identity_matrix (translation_matrix 0 0) = identity_matrix \<and>
   translateMatrix (map Finite identity_matrix) (Finite 0) (Finite 0) \<noteq>
     map Finite (matrix_product identity_matrix (translation_matrix 0 0))"
  by (simp add: translateMatrix_def identity_matrix_def translation_matrix_def
      matrix_product_def matrix_entry_def Let_def Float32Array_get_def)

text \<open>
  C5. The claim: for width 960 and height 640, index 0 of the orthographic matrix
  holds \<open>2 / 960\<close> and index 5 holds \<open>2 / (0 - 640)\<close>. On the code this fails: the matrix
  is a \<^verbatim>\<open>Float32Array\<close>, neither quotient is a single-precision number, and the entries
  are the quotients rounded.
\<close>

theorem createOrthographicMatrix_rounds_scale_terms:
  "createOrthographicMatrix instance_960x640 =
     Inr [Finite (8947849 / 4294967296), Finite 0, Finite 0, Finite 0,
          Finite 0, Finite (- (13421773 / 4294967296)), Finite 0, Finite 0,
          Finite 0, Finite 0, Finite (- 1), Finite 0,
          Finite (- 1), Finite 1, Finite 0, Finite 1] \<and>
   Finite (8947849 / 4294967296) \<noteq> Finite (2 / 960) \<and>
   Finite (- (13421773 / 4294967296)) \<noteq> Finite (2 / (0 - 640))"
  using orthographic_960x640 by simp

text \<open>
  C5, amended. On an instance constructed with a width and a height from 1 to
  \<open>2^31 - 1\<close>, \<^verbatim>\<open>createOrthographicMatrix\<close> returns 16 entries with
  \<open>left = 0\<close>, \<open>right = width\<close>, \<open>bottom = height\<close>, \<open>top = 0\<close>, \<open>near = -1\<close>, \<open>far = 1\<close>:
  index 0 holds \<open>2 / (right - left)\<close> and index 5 holds \<open>2 / (top - bottom)\<close>, each
  rounded to a double and stored in single precision; index 10 holds
  \<open>2 / (near - far)\<close> and indices 12, 13 and 14 hold \<open>(left + right) / (left - right)\<close>,
  \<open>(bottom + top) / (bottom - top)\<close> and \<open>(near + far) / (near - far)\<close> exactly; index 15
  holds 1 and the rest 0. For 960 by 640, index 0 holds \<open>8947849 / 2^32\<close> and index 5
  holds \<open>- 13421773 / 2^32\<close>.
\<close>

theorem createOrthographicMatrix_entries_rounded:
  assumes "construct e canvasID w h = Inr s" "safe s"
    and "0 < w" "w \<le> 2147483647" "0 < h" "h \<le> 2147483647"
  shows "createOrthographicMatrix s =
           Inr [Float32Array_store (to_double (2 / (real_of_int w - 0))),
                Finite 0, Finite 0, Finite 0,
                Finite 0, Float32Array_store (to_double (2 / (0 - real_of_int h))),
                Finite 0, Finite 0,
                Finite 0, Finite 0, Finite (2 / (- 1 - 1)), Finite 0,
                Finite ((0 + real_of_int w) / (0 - real_of_int w)),
                Finite ((real_of_int h + 0) / (real_of_int h - 0)),
                Finite ((- 1 + 1) / (- 1 - 1)),
                Finite 1]"
proof -
  have "canvas_dimension 300 w = w" "canvas_dimension 150 h = h"
    using assms(3-6) by (simp_all add: canvas_dimension_def)
  with construct_safe(9) [OF assms(1,2)] assms(3,5) show ?thesis
    by (simp add: createOrthographicMatrix_def Let_def js_quotient_def)
qed

theorem createOrthographicMatrix_entries_rounded_witness:
  "construct demo_env ''canvas'' 960 640 = Inr instance_960x640 \<and> safe instance_960x640 \<and>
   createOrthographicMatrix instance_960x640 =
     Inr [Finite (8947849 / 4294967296), Finite 0, Finite 0, Finite 0,
          Finite 0, Finite (- (13421773 / 4294967296)), Finite 0, Finite 0,
          Finite 0, Finite 0, Finite (- 1), Finite 0,
          Finite (- 1), Finite 1, Finite 0, Finite 1]"
  using createOrthographicMatrix_entries_rounded
      [of demo_env "''canvas''" 960 640 instance_960x640]
    construct_960x640
  by (simp add: rounded_scale_terms)

end
